theory Spec2Isabelle
  imports Main "HOL-Library.Word" "HOL-Library.AList" "HOL-Library.Sublist"
begin

unbundle bit_operations_syntax

section \<open>Python values used by volpro.py\<close>

text \<open>
  A Python \<open>str\<close> is a sequence of Unicode code points, a \<open>bytes\<close> object a sequence of
  octets. String literals of the source that are plain ASCII are written \<open>ascii ''...''\<close>;
  the Chinese literals and the emoji are written as their code points.
\<close>

type_synonym pystr = "nat list"
type_synonym bytes = "8 word list"

definition ascii :: "string \<Rightarrow> pystr" where
  "ascii s = map of_char s"

text \<open>
  The exceptions that the modelled statements raise. \<open>OSError\<close> stands for every other
  failure of the operating system or of a library call, with its message.
\<close>

datatype exn = TimeoutExpired | UnicodeDecodeError | IndexError | ValueError | OSError pystr

subsection \<open>Strings and lists\<close>

text \<open>\<open>s.split(sep)\<close> for a separator of one character: never the empty list.\<close>

fun py_split :: "'a \<Rightarrow> 'a list \<Rightarrow> 'a list list" where
  "py_split sep [] = [[]]"
| "py_split sep (c # cs) =
     (if c = sep then [] # py_split sep cs
      else (case py_split sep cs of [] \<Rightarrow> [[c]] | p # ps \<Rightarrow> (c # p) # ps))"

text \<open>\<open>xs[i]\<close> for \<open>i \<ge> 0\<close>: IndexError out of range.\<close>

definition py_nth :: "'a list \<Rightarrow> nat \<Rightarrow> exn + 'a" where
  "py_nth xs i = (if i < length xs then Inr (xs ! i) else Inl IndexError)"

text \<open>\<open>xs.index(x)\<close>: the first position of \<open>x\<close>, ValueError when there is none.\<close>

fun py_index :: "'a list \<Rightarrow> 'a \<Rightarrow> exn + nat" where
  "py_index [] x = Inl ValueError"
| "py_index (y # ys) x =
     (if y = x then Inr 0
      else (case py_index ys x of Inl e \<Rightarrow> Inl e | Inr i \<Rightarrow> Inr (Suc i)))"

text \<open>\<open>sub in s\<close> on strings: \<open>sub\<close> occurs in \<open>s\<close> as a contiguous piece.\<close>

fun py_in :: "'a list \<Rightarrow> 'a list \<Rightarrow> bool" where
  "py_in sub [] = (sub = [])"
| "py_in sub (c # cs) = (prefix sub (c # cs) \<or> py_in sub cs)"

text \<open>\<open>sep.join(xs)\<close>.\<close>

fun py_join :: "'a list \<Rightarrow> 'a list list \<Rightarrow> 'a list" where
  "py_join sep [] = []"
| "py_join sep [x] = x"
| "py_join sep (x # y # ys) = x @ sep @ py_join sep (y # ys)"

text \<open>\<open>s.strip()\<close>: the characters for which \<open>str.isspace\<close> holds are removed at both ends.\<close>

definition isspace :: "nat \<Rightarrow> bool" where
  "isspace c \<longleftrightarrow>
     (9 \<le> c \<and> c \<le> 13) \<or> (28 \<le> c \<and> c \<le> 32) \<or> c = 133 \<or> c = 160 \<or> c = 5760 \<or>
     (8192 \<le> c \<and> c \<le> 8202) \<or> c = 8232 \<or> c = 8233 \<or> c = 8239 \<or> c = 8287 \<or> c = 12288"

definition strip :: "pystr \<Rightarrow> pystr" where
  "strip s = rev (dropWhile isspace (rev (dropWhile isspace s)))"

text \<open>
  \<open>f.readlines()\<close> on the text of a file: the lines with their line ends, the last one
  without when the text does not end in a newline.
\<close>

fun readlines :: "pystr \<Rightarrow> pystr list" where
  "readlines [] = []"
| "readlines (c # cs) =
     (if c = 10 then [c] # readlines cs
      else (case readlines cs of [] \<Rightarrow> [[c]] | l # ls \<Rightarrow> (c # l) # ls))"

text \<open>A list comprehension whose element expression may raise.\<close>

fun comprehension :: "('a \<Rightarrow> exn + 'b) \<Rightarrow> 'a list \<Rightarrow> exn + 'b list" where
  "comprehension f [] = Inr []"
| "comprehension f (x # xs) =
     (case f x of
        Inl e \<Rightarrow> Inl e
      | Inr y \<Rightarrow> (case comprehension f xs of Inl e \<Rightarrow> Inl e | Inr ys \<Rightarrow> Inr (y # ys)))"

text \<open>
  An \<open>Optional[str]\<close> in a condition (\<open>None\<close> and the empty string are false) and inside
  an f-string (\<open>None\<close> is printed as the word None).
\<close>

fun truthy :: "pystr option \<Rightarrow> bool" where
  "truthy None = False"
| "truthy (Some s) = (s \<noteq> [])"

fun py_format :: "pystr option \<Rightarrow> pystr" where
  "py_format None = ascii ''None''"
| "py_format (Some s) = s"

subsection \<open>Codecs\<close>

text \<open>
  \<open>b.decode(codec, errors=...)\<close> of the standard library, for the three codecs and the two
  error handlers that occur. The UTF-8 decoder accepts the well-formed sequences only
  (shortest form, no surrogates, at most U+10FFFF); at an ill-formed sequence the handler
  \<open>strict\<close> raises and \<open>ignore\<close> drops the bytes read so far of that sequence and goes on
  at the offending byte.
\<close>

datatype codec = UTF_8 | ISO_8859_1 | CP1252
datatype errors = Strict | Ignore

datatype ustate = Start | Need nat nat "8 word" "8 word"

definition utf8_lead :: "8 word \<Rightarrow> (pystr \<times> ustate) option" where
  "utf8_lead b =
     (if b < 0x80 then Some ([unat b], Start)
      else if 0xC2 \<le> b \<and> b \<le> 0xDF then Some ([], Need 1 (unat (b AND 0x1F)) 0x80 0xBF)
      else if b = 0xE0 then Some ([], Need 2 (unat (b AND 0x0F)) 0xA0 0xBF)
      else if b = 0xED then Some ([], Need 2 (unat (b AND 0x0F)) 0x80 0x9F)
      else if 0xE1 \<le> b \<and> b \<le> 0xEF then Some ([], Need 2 (unat (b AND 0x0F)) 0x80 0xBF)
      else if b = 0xF0 then Some ([], Need 3 (unat (b AND 0x07)) 0x90 0xBF)
      else if 0xF1 \<le> b \<and> b \<le> 0xF3 then Some ([], Need 3 (unat (b AND 0x07)) 0x80 0xBF)
      else if b = 0xF4 then Some ([], Need 3 (unat (b AND 0x07)) 0x80 0x8F)
      else None)"

function utf8_decode :: "errors \<Rightarrow> ustate \<Rightarrow> bytes \<Rightarrow> exn + pystr" where
  "utf8_decode h Start [] = Inr []"
| "utf8_decode h (Need k acc lo hi) [] =
     (if h = Strict then Inl UnicodeDecodeError else Inr [])"
| "utf8_decode h Start (b # bs) =
     (case utf8_lead b of
        None \<Rightarrow> (if h = Strict then Inl UnicodeDecodeError else utf8_decode h Start bs)
      | Some (out, st) \<Rightarrow>
          (case utf8_decode h st bs of Inl e \<Rightarrow> Inl e | Inr s \<Rightarrow> Inr (out @ s)))"
| "utf8_decode h (Need k acc lo hi) (b # bs) =
     (if lo \<le> b \<and> b \<le> hi then
        (if k \<le> 1 then
           (case utf8_decode h Start bs of
              Inl e \<Rightarrow> Inl e
            | Inr s \<Rightarrow> Inr ((acc * 64 + unat (b AND 0x3F)) # s))
         else utf8_decode h (Need (k - 1) (acc * 64 + unat (b AND 0x3F)) 0x80 0xBF) bs)
      else if h = Strict then Inl UnicodeDecodeError
      else utf8_decode h Start (b # bs))"
  by pat_completeness auto
termination
  by (relation "measure (\<lambda>(h, st, bs). 2 * length bs + (case st of Start \<Rightarrow> 0 | Need k acc lo hi \<Rightarrow> 1))")
    (auto split: ustate.splits)

text \<open>
  The single-byte codecs map each byte on its own. ISO-8859-1 maps every byte; Windows-1252
  leaves five bytes of the range 0x80..0x9F undefined.
\<close>

definition cp1252_high :: "nat option list" where
  "cp1252_high =
     [Some 0x20AC, None, Some 0x201A, Some 0x0192, Some 0x201E, Some 0x2026, Some 0x2020,
      Some 0x2021, Some 0x02C6, Some 0x2030, Some 0x0160, Some 0x2039, Some 0x0152, None,
      Some 0x017D, None, None, Some 0x2018, Some 0x2019, Some 0x201C, Some 0x201D,
      Some 0x2022, Some 0x2013, Some 0x2014, Some 0x02DC, Some 0x2122, Some 0x0161,
      Some 0x203A, Some 0x0153, None, Some 0x017E, Some 0x0178]"

definition charmap :: "codec \<Rightarrow> 8 word \<Rightarrow> nat option" where
  "charmap c b =
     (if c = CP1252 \<and> 0x80 \<le> b \<and> b \<le> 0x9F then cp1252_high ! (unat b - 128)
      else Some (unat b))"

fun charmap_decode :: "codec \<Rightarrow> errors \<Rightarrow> bytes \<Rightarrow> exn + pystr" where
  "charmap_decode c h [] = Inr []"
| "charmap_decode c h (b # bs) =
     (case charmap c b of
        None \<Rightarrow> (if h = Strict then Inl UnicodeDecodeError else charmap_decode c h bs)
      | Some u \<Rightarrow> (case charmap_decode c h bs of Inl e \<Rightarrow> Inl e | Inr s \<Rightarrow> Inr (u # s)))"

definition decode :: "codec \<Rightarrow> errors \<Rightarrow> bytes \<Rightarrow> exn + pystr" where
  "decode c h b = (if c = UTF_8 then utf8_decode h Start b else charmap_decode c h b)"

section \<open>The world around the program\<close>

text \<open>
  Paths are kept as the expressions the source builds them with:
  \<open>Path(os.path.dirname(p))\<close> and \<open>d / name\<close>. Two different expressions are taken to
  name two different files. A file that exists either holds characters (the decoding of
  its bytes, newlines as they were stored) or raises when it is read.
\<close>

datatype path = Dirname pystr | Child path pystr

datatype entry = Text pystr | Unreadable exn

text \<open>
  \<open>Path.write_text\<close> opens the file with mode \<open>w\<close>, which creates or truncates it, and
  then writes. When it raises, either the file was never opened and is as before, or it
  was opened, and what the failed write left is in the file.
\<close>

datatype write_failure = Not_opened exn | Opened exn entry

text \<open>\<open>subprocess.run\<close> returns the bytes of standard output or raises.\<close>

datatype proc_result = Completed bytes | Raises exn

text \<open>
  The records of \<open>logger.warning\<close> and \<open>logger.error\<close>, one constructor for each place of
  the source, with the values the message is formatted from. The \<open>logger.info\<close> lines and
  the local \<open>tqdm\<close> bars of \<open>generate_markdown\<close> and \<open>analyze_memory_dump\<close> are display
  only and are left out.
\<close>

datatype log_event =
    Task_no_output pystr
  | Task_timeout pystr int
  | Task_error pystr exn
  | Report_task_error pystr exn
  | Report_error exn
  | Dumpfiles_error exn
  | Profile_error exn
  | Config_error exn
  | Fatal_error exn

text \<open>
  \<open>ProgressManager\<close>: the counter \<open>completed_tasks\<close> and, of its \<open>tqdm\<close> bar, the total, the
  position and the description. The bar keeps the description of its constructor as it is
  given; \<open>set_description\<close> keeps its argument followed by a colon and a space.
\<close>

record ProgressManager =
  progress_total :: nat
  progress_n :: nat
  progress_desc :: pystr
  completed_tasks :: nat

text \<open>
  What the program changes: the files, the commands handed to \<open>subprocess.run\<close> (in the
  order of the calls), the log, what was printed, and the field \<open>self.progress_manager\<close>.
\<close>

record world =
  files :: "path \<Rightarrow> entry option"
  invoked :: "pystr list list"
  logged :: "log_event list"
  printed :: "pystr list"
  progress_manager :: "ProgressManager option"

text \<open>
  What the program cannot decide: the result of \<open>subprocess.run\<close> for a command, with the
  \<open>shell\<close> flag and the timeout of the call; whether \<open>mkdir\<close> and the writing of a file
  raise; the text of \<open>tasklist.cfg\<close> as the text-mode file delivers it, or the exception
  that opening or reading it raises; and \<open>os.linesep\<close>, the line end of the platform.
\<close>

record env =
  subprocess_run :: "pystr list \<Rightarrow> bool \<Rightarrow> int option \<Rightarrow> proc_result"
  mkdir_raises :: "path \<Rightarrow> exn option"
  tasklist_cfg :: "exn + pystr"
  write_raises :: "path \<Rightarrow> write_failure option"
  linesep :: pystr

definition path_exists :: "world \<Rightarrow> path \<Rightarrow> bool" where
  "path_exists w p \<longleftrightarrow> files w p \<noteq> None"

text \<open>
  Both \<open>read_text\<close> and \<open>write_text\<close> work in text mode. Reading turns every
  carriage return with a line feed after it, and every other carriage return, into one
  line feed (10); writing turns every line feed into \<open>os.linesep\<close>.
\<close>

fun universal_newlines :: "pystr \<Rightarrow> pystr" where
  "universal_newlines [] = []"
| "universal_newlines [c] = [if c = 13 then 10 else c]"
| "universal_newlines (c # d # cs) =
     (if c = 13 \<and> d = 10 then 10 # universal_newlines cs
      else if c = 13 then 10 # universal_newlines (d # cs)
      else c # universal_newlines (d # cs))"

definition write_newlines :: "pystr \<Rightarrow> pystr \<Rightarrow> pystr" where
  "write_newlines sep t = concat (map (\<lambda>c. if c = 10 then sep else [c]) t)"

fun read_text :: "entry \<Rightarrow> exn + pystr" where
  "read_text (Text t) = Inr (universal_newlines t)"
| "read_text (Unreadable e) = Inl e"

text \<open>
  \<open>write_text\<close> returns the new world, or the exception together with the world at the
  moment it was raised.
\<close>

definition write_text :: "env \<Rightarrow> path \<Rightarrow> pystr \<Rightarrow> world \<Rightarrow> exn \<times> world + world" where
  "write_text env p t w =
     (case write_raises env p of
        None \<Rightarrow> Inr (w\<lparr>files := (files w)(p \<mapsto> Text (write_newlines (linesep env) t))\<rparr>)
      | Some failure \<Rightarrow>
          (case failure of
             Not_opened e \<Rightarrow> Inl (e, w)
           | Opened e left \<Rightarrow> Inl (e, w\<lparr>files := (files w)(p \<mapsto> left)\<rparr>)))"

section \<open>ProgressManager\<close>

definition ProgressManager_init :: "nat \<Rightarrow> ProgressManager" where
  "ProgressManager_init total_tasks =
     \<lparr>progress_total = total_tasks, progress_n = 0,
      progress_desc = [128640, 32, 27491, 22312, 20998, 26512, 20869, 23384],
      completed_tasks = 0\<rparr>"

definition update :: "ProgressManager \<Rightarrow> pystr \<Rightarrow> ProgressManager" where
  "update pm task_name =
     pm\<lparr>completed_tasks := completed_tasks pm + 1,
        progress_desc := [128640, 32] @ task_name @ [58, 32],
        progress_n := progress_n pm + 1\<rparr>"

section \<open>VolatilityAnalyzer\<close>

record analyzer =
  volatility_path :: pystr
  timeout :: int

definition txt_file :: "pystr \<Rightarrow> pystr" where
  "txt_file task_name = task_name @ ascii ''.txt''"

subsection \<open>get_remaining_tasks\<close>

definition get_remaining_tasks :: "world \<Rightarrow> path \<Rightarrow> (pystr \<times> 'v) list \<Rightarrow> pystr list" where
  "get_remaining_tasks w output_path tasks =
     [task_name. task_name \<leftarrow> map fst tasks,
        \<not> path_exists w (Child output_path (txt_file task_name))]"

subsection \<open>run_command\<close>

text \<open>\<open>if self.progress_manager: self.progress_manager.update(label)\<close>\<close>

definition notify :: "pystr \<Rightarrow> world \<Rightarrow> world" where
  "notify label w =
     (case progress_manager w of
        None \<Rightarrow> w
      | Some pm \<Rightarrow> w\<lparr>progress_manager := Some (update pm label)\<rparr>)"

text \<open>The inner \<open>try\<close> of lines 65 to 68.\<close>

definition decode_stdout :: "bytes \<Rightarrow> exn + pystr" where
  "decode_stdout stdout =
     (case decode UTF_8 Ignore stdout of
        Inr output \<Rightarrow> Inr output
      | Inl e \<Rightarrow> (if e = UnicodeDecodeError then decode ISO_8859_1 Ignore stdout else Inl e))"

text \<open>The two \<open>except\<close> clauses of lines 80 to 87.\<close>

definition task_failed :: "analyzer \<Rightarrow> pystr \<Rightarrow> exn \<Rightarrow> world \<Rightarrow> world" where
  "task_failed self task_name e w =
     (if e = TimeoutExpired then
        notify (task_name @ [32, 40, 36229, 26102, 41])
          (w\<lparr>logged := logged w @ [Task_timeout task_name (timeout self)]\<rparr>)
      else
        notify (task_name @ [32, 40, 38169, 35823, 41])
          (w\<lparr>logged := logged w @ [Task_error task_name e]\<rparr>))"

definition run_command ::
  "env \<Rightarrow> analyzer \<Rightarrow> pystr list \<Rightarrow> pystr \<Rightarrow> path \<Rightarrow> (pystr \<times> pystr list) list \<Rightarrow> world \<Rightarrow> world"
where
  "run_command env self command task_name output_path tasks w =
     (let w0 = w\<lparr>invoked := invoked w @ [command]\<rparr> in
      case subprocess_run env command True (Some (timeout self)) of
        Raises e \<Rightarrow> task_failed self task_name e w0
      | Completed stdout \<Rightarrow>
          (case decode_stdout stdout of
             Inl e \<Rightarrow> task_failed self task_name e w0
           | Inr output \<Rightarrow>
               if output \<noteq> [] then
                 (case write_text env (Child output_path (txt_file task_name)) output w0 of
                    Inl (e, w1) \<Rightarrow> task_failed self task_name e w1
                  | Inr w1 \<Rightarrow> notify task_name w1)
               else
                 notify (task_name @ [32, 40, 26080, 36755, 20986, 41])
                   (w0\<lparr>logged := logged w0 @ [Task_no_output task_name]\<rparr>)))"

subsection \<open>generate_markdown\<close>

text \<open>The look-up of the help text, lines 102 to 108.\<close>

definition help_text_of ::
  "pystr list \<Rightarrow> pystr list \<Rightarrow> pystr list \<Rightarrow> pystr list \<Rightarrow> pystr \<Rightarrow> exn + pystr"
where
  "help_text_of tasklist tasklist_help task_filescanlist task_filescanlist_help task_name =
     (if py_in (ascii ''filescan'') task_name then
        (case py_nth (py_split 40 task_name) 1 of
           Inl e \<Rightarrow> Inl e
         | Inr rest \<Rightarrow>
             (case py_nth (py_split 41 rest) 0 of
                Inl e \<Rightarrow> Inl e
              | Inr scan_type \<Rightarrow>
                  (case py_index task_filescanlist scan_type of
                     Inl e \<Rightarrow> Inl e
                   | Inr index \<Rightarrow> py_nth task_filescanlist_help index)))
      else
        (case py_index tasklist task_name of
           Inl e \<Rightarrow> Inl e
         | Inr index \<Rightarrow> py_nth tasklist_help index))"

definition heading :: "pystr \<Rightarrow> pystr \<Rightarrow> pystr" where
  "heading task_name help_text = ascii ''# '' @ task_name @ [10] @ ascii ''## '' @ help_text"

definition fenced :: "pystr \<Rightarrow> pystr" where
  "fenced content = ascii ''```'' @ [10] @ content @ [10] @ ascii ''```'' @ [10]"

definition no_data :: pystr where
  "no_data = [42, 26242, 26080, 25968, 25454, 42, 10]"

text \<open>The body of the loop, lines 101 to 120, on the list \<open>markdown\<close> and the world.\<close>

definition report_task ::
  "pystr list \<Rightarrow> pystr list \<Rightarrow> pystr list \<Rightarrow> pystr list \<Rightarrow> path \<Rightarrow> pystr \<Rightarrow>
   pystr list \<times> world \<Rightarrow> pystr list \<times> world"
where
  "report_task tasklist tasklist_help task_filescanlist task_filescanlist_help output_path
     task_name st =
     (case st of (markdown, w) \<Rightarrow>
      (case help_text_of tasklist tasklist_help task_filescanlist task_filescanlist_help
              task_name of
         Inl e \<Rightarrow> (markdown, w\<lparr>logged := logged w @ [Report_task_error task_name e]\<rparr>)
       | Inr help_text \<Rightarrow>
           (let markdown1 = markdown @ [heading task_name help_text] in
            case files w (Child output_path (txt_file task_name)) of
              None \<Rightarrow> (markdown1 @ [no_data], w)
            | Some f \<Rightarrow>
                (case read_text f of
                   Inl e \<Rightarrow>
                     (markdown1, w\<lparr>logged := logged w @ [Report_task_error task_name e]\<rparr>)
                 | Inr content \<Rightarrow> (markdown1 @ [fenced content], w)))))"

definition markdown_of ::
  "(pystr \<times> pystr list) list \<Rightarrow> path \<Rightarrow> pystr list \<Rightarrow> pystr list \<Rightarrow> pystr list \<Rightarrow>
   pystr list \<Rightarrow> world \<Rightarrow> pystr list \<times> world"
where
  "markdown_of tasks output_path tasklist tasklist_help task_filescanlist
     task_filescanlist_help w =
     fold (report_task tasklist tasklist_help task_filescanlist task_filescanlist_help
             output_path)
       (map fst tasks) ([], w)"

definition generate_markdown ::
  "env \<Rightarrow> (pystr \<times> pystr list) list \<Rightarrow> path \<Rightarrow> pystr list \<Rightarrow> pystr list \<Rightarrow> pystr list \<Rightarrow>
   pystr list \<Rightarrow> world \<Rightarrow> world"
where
  "generate_markdown env tasks output_path tasklist tasklist_help task_filescanlist
     task_filescanlist_help w =
     (case markdown_of tasks output_path tasklist tasklist_help task_filescanlist
             task_filescanlist_help w of
        (markdown, w1) \<Rightarrow>
          (case write_text env (Child output_path (ascii ''summary.md''))
                  (py_join [10] markdown) w1 of
             Inl (e, w2) \<Rightarrow> w2\<lparr>logged := logged w2 @ [Report_error e]\<rparr>
           | Inr w2 \<Rightarrow> w2))"

subsection \<open>analyze_memory_dump\<close>

text \<open>The branch of lines 137 to 158: the files are exported and the run returns.\<close>

definition dump_files :: "env \<Rightarrow> analyzer \<Rightarrow> pystr \<Rightarrow> pystr \<Rightarrow> pystr \<Rightarrow> world \<Rightarrow> world" where
  "dump_files env self memorydump_path profile dumpfiles_location w =
     (let command =
            [volatility_path self, ascii ''-f'', memorydump_path,
             ascii ''--profile='' @ profile, ascii ''dumpfiles'',
             ascii ''-Q'', dumpfiles_location, ascii ''-D'', ascii ''./''];
          w0 = w\<lparr>invoked := invoked w @ [command]\<rparr>
      in case subprocess_run env command False None of
           Raises e \<Rightarrow> w0\<lparr>logged := logged w0 @ [Dumpfiles_error e]\<rparr>
         | Completed stdout \<Rightarrow>
             (case decode CP1252 Ignore stdout of
                Inl e \<Rightarrow> w0\<lparr>logged := logged w0 @ [Dumpfiles_error e]\<rparr>
              | Inr output \<Rightarrow> w0\<lparr>printed := printed w0 @ [output]\<rparr>))"

text \<open>
  The loop of lines 173 to 177 over the lines of the output of \<open>imageinfo\<close>: the first
  line with the marker sets the profile and ends the loop; without such a line the
  profile stays as it was.
\<close>

fun find_profile :: "pystr list \<Rightarrow> pystr option \<Rightarrow> exn + pystr option" where
  "find_profile [] profile = Inr profile"
| "find_profile (line # lines) profile =
     (if py_in (ascii ''Suggested Profile(s)'') line then
        (case py_nth (py_split 58 line) 1 of
           Inl e \<Rightarrow> Inl e
         | Inr field \<Rightarrow>
             (case py_nth (py_split 44 (strip field)) 0 of
                Inl e \<Rightarrow> Inl e
              | Inr first \<Rightarrow> Inr (Some (strip first))))
      else find_profile lines profile)"

text \<open>
  Lines 161 to 181, entered when no profile was given: \<open>Inl\<close> is the \<open>return\<close> of the
  \<open>except\<close> clause, \<open>Inr\<close> goes on with the profile.
\<close>

definition detect_profile ::
  "env \<Rightarrow> analyzer \<Rightarrow> pystr \<Rightarrow> pystr option \<Rightarrow> world \<Rightarrow> world + pystr option \<times> world"
where
  "detect_profile env self memorydump_path profile w =
     (let command = [volatility_path self, ascii ''-f'', memorydump_path, ascii ''imageinfo''];
          w0 = w\<lparr>invoked := invoked w @ [command]\<rparr>
      in case subprocess_run env command False None of
           Raises e \<Rightarrow> Inl (w0\<lparr>logged := logged w0 @ [Profile_error e]\<rparr>)
         | Completed stdout \<Rightarrow>
             (case decode CP1252 Ignore stdout of
                Inl e \<Rightarrow> Inl (w0\<lparr>logged := logged w0 @ [Profile_error e]\<rparr>)
              | Inr output \<Rightarrow>
                  (case find_profile (py_split 10 output) profile of
                     Inl e \<Rightarrow> Inl (w0\<lparr>logged := logged w0 @ [Profile_error e]\<rparr>)
                   | Inr profile1 \<Rightarrow> Inr (profile1, w0))))"

text \<open>Lines 184 to 191: the two lists read from \<open>tasklist.cfg\<close>.\<close>

definition read_config :: "env \<Rightarrow> exn + pystr list \<times> pystr list" where
  "read_config env =
     (case tasklist_cfg env of
        Inl e \<Rightarrow> Inl e
      | Inr text \<Rightarrow>
          (let config_lines = readlines text in
           case comprehension (\<lambda>line. py_nth (py_split 45 line) 0) config_lines of
             Inl e \<Rightarrow> Inl e
           | Inr tasklist \<Rightarrow>
               (case comprehension (\<lambda>line. py_nth (py_split 45 line) 1) config_lines of
                  Inl e \<Rightarrow> Inl e
                | Inr tasklist_help \<Rightarrow> Inr (tasklist, tasklist_help))))"

definition task_filescanlist :: "pystr list" where
  "task_filescanlist =
     [ascii ''Desktop'', ascii ''Downloads'', ascii ''.zip'', ascii ''flag'', ascii ''evtx'']"

definition task_filescanlist_help :: "pystr list" where
  "task_filescanlist_help =
     [[26700, 38754], [19979, 36733], [21387, 32553, 21253], ascii ''flag'', [26085, 24535]]"

text \<open>
  Lines 198 to 208. The dictionary \<open>tasks\<close> is an association list in insertion order:
  assigning to a key that is present replaces its value where it stands, assigning to a new
  key appends it.
\<close>

definition filescan_name :: "pystr \<Rightarrow> pystr" where
  "filescan_name task_filescan = ascii ''filescan('' @ task_filescan @ ascii '')''"

definition build_tasks :: "pystr option \<Rightarrow> pystr \<Rightarrow> pystr list \<Rightarrow> (pystr \<times> pystr list) list" where
  "build_tasks profile memorydump_path tasklist =
     fold (\<lambda>task_filescan tasks.
             AList.update (filescan_name task_filescan)
               [ascii ''--profile='' @ py_format profile, ascii ''-f'', memorydump_path,
                ascii ''filescan'', ascii ''|'', ascii ''findstr'', task_filescan] tasks)
       task_filescanlist
       (fold (\<lambda>task tasks.
                AList.update task
                  [ascii ''--profile='' @ py_format profile, ascii ''-f'', memorydump_path, task]
                  tasks)
          tasklist [])"

text \<open>
  Lines 214 to 224. The calls of \<open>run_command\<close> that the pool runs are taken one after
  the other, in the order of submission; every call writes a file of its own and counts
  under the lock of the progress manager. \<open>progress_manager.close()\<close> after the pool
  only ends the display of the bar and changes nothing that is modelled.
\<close>

definition dispatch ::
  "env \<Rightarrow> analyzer \<Rightarrow> path \<Rightarrow> (pystr \<times> pystr list) list \<Rightarrow> (pystr \<times> pystr list) list \<Rightarrow>
   world \<Rightarrow> world"
where
  "dispatch env self output_path tasks submitted w =
     fold (\<lambda>item. run_command env self (volatility_path self # snd item) (fst item)
                     output_path tasks)
       submitted w"

definition analyze_memory_dump ::
  "env \<Rightarrow> analyzer \<Rightarrow> pystr \<Rightarrow> pystr option \<Rightarrow> bool \<Rightarrow> pystr option \<Rightarrow> world \<Rightarrow> exn + world"
where
  "analyze_memory_dump env self memorydump_path profile dumpfiles dumpfiles_location w =
     (let output_path = Child (Dirname memorydump_path) (ascii ''output'') in
      case mkdir_raises env output_path of
        Some e \<Rightarrow> Inl e
      | None \<Rightarrow>
          if dumpfiles \<and> truthy profile \<and> truthy dumpfiles_location then
            Inr (dump_files env self memorydump_path (py_format profile)
                   (py_format dumpfiles_location) w)
          else
            (case (if \<not> truthy profile then detect_profile env self memorydump_path profile w
                   else Inr (profile, w)) of
               Inl w1 \<Rightarrow> Inr w1
             | Inr (profile1, w1) \<Rightarrow>
                 (case read_config env of
                    Inl e \<Rightarrow> Inr (w1\<lparr>logged := logged w1 @ [Config_error e]\<rparr>)
                  | Inr (tasklist, tasklist_help) \<Rightarrow>
                      (let tasks = build_tasks profile1 memorydump_path tasklist;
                           total_tasks = length tasklist + length task_filescanlist;
                           w2 = w1\<lparr>progress_manager :=
                                     Some (ProgressManager_init total_tasks)\<rparr>;
                           w3 = dispatch env self output_path tasks tasks w2
                       in Inr (generate_markdown env tasks output_path tasklist tasklist_help
                                 task_filescanlist task_filescanlist_help w3)))))"

section \<open>main\<close>

text \<open>
  The parsed command line, and the exit status of the process: 1 from \<open>sys.exit(1)\<close>
  when an exception leaves \<open>analyze_memory_dump\<close>, 0 when \<open>main\<close> returns.
\<close>

record args =
  arg_memorydump_path :: pystr
  arg_profile :: "pystr option"
  arg_dumpfiles :: bool
  arg_dumpfiles_location :: "pystr option"
  arg_timeout :: int
  arg_volatility_path :: pystr

definition main :: "env \<Rightarrow> args \<Rightarrow> world \<Rightarrow> nat \<times> world" where
  "main env a w =
     (let analyzer = \<lparr>volatility_path = arg_volatility_path a, timeout = arg_timeout a\<rparr> in
      case analyze_memory_dump env analyzer (arg_memorydump_path a) (arg_profile a)
             (arg_dumpfiles a) (arg_dumpfiles_location a) w of
        Inl e \<Rightarrow> (1, w\<lparr>logged := logged w @ [Fatal_error e]\<rparr>)
      | Inr w1 \<Rightarrow> (0, w1))"

section \<open>The section of a task, as the specification describes it\<close>

text \<open>
  Following the specification (4.5), not the source: a section is the heading of the task
  with its help text, followed by the text read from the persisted file
  \<open>output_path / (name + ".txt")\<close> in a fenced block, or by the placeholder when there is
  no such text. The theorems compare the list \<open>markdown\<close> that the source builds with
  these sections.
\<close>

definition section_of :: "world \<Rightarrow> path \<Rightarrow> pystr \<times> pystr \<Rightarrow> pystr list" where
  "section_of w output_path item =
     [heading (fst item) (snd item),
      (case files w (Child output_path (fst item @ ascii ''.txt'')) of
         None \<Rightarrow> no_data
       | Some f \<Rightarrow>
           (case read_text f of Inr content \<Rightarrow> fenced content | Inl e \<Rightarrow> no_data))]"

section \<open>Concrete inputs\<close>

text \<open>
  An analyzer with the defaults of the command line, an image at \<open>/data/mem.img\<close> with
  its output directory, and a world in which no file exists and nothing has happened.
\<close>

definition example_self :: analyzer where
  "example_self = \<lparr>volatility_path = ascii ''vol.exe'', timeout = 120\<rparr>"

definition example_dump :: pystr where
  "example_dump = ascii ''/data/mem.img''"

definition example_output :: path where
  "example_output = Child (Dirname example_dump) (ascii ''output'')"

definition empty_world :: world where
  "empty_world =
     \<lparr>files = (\<lambda>p. None), invoked = [], logged = [], printed = [], progress_manager = None\<rparr>"

text \<open>A world in which \<open>output/pslist.txt\<close> is there, and a catalog of two tasks.\<close>

definition pslist_done :: world where
  "pslist_done =
     empty_world\<lparr>files :=
       (\<lambda>p. if p = Child example_output (ascii ''pslist.txt'')
            then Some (Text (ascii ''PID 1 init'')) else None)\<rparr>"

definition two_tasks :: "(pystr \<times> pystr list) list" where
  "two_tasks = [(ascii ''pslist'', [ascii ''pslist'']), (ascii ''netscan'', [ascii ''netscan''])]"

text \<open>
  A configuration of two lines, the first with a second separator:
  \<open>pslist-Process list-v2\<close> and \<open>netscan-Net\<close>, each ended by a newline.
\<close>

definition two_line_cfg :: pystr where
  "two_line_cfg = ascii ''pslist-Process list-v2'' @ [10] @ ascii ''netscan-Net'' @ [10]"

definition cfg_env :: "pystr \<Rightarrow> env" where
  "cfg_env text =
     \<lparr>subprocess_run = (\<lambda>command shell t. Completed []),
      mkdir_raises = (\<lambda>p. None),
      tasklist_cfg = Inr text,
      write_raises = (\<lambda>p. None),
      linesep = [10]\<rparr>"

text \<open>
  The scenario of the specification: the configuration lists \<open>pslist\<close> and \<open>netscan\<close>;
  the tool prints \<open>PID 1 init\<close> for \<open>pslist\<close>, runs into the timeout for \<open>netscan\<close>
  and prints nothing for every other command.
\<close>

definition ascii_bytes :: "string \<Rightarrow> bytes" where
  "ascii_bytes s = map of_char s"

definition scenario_env :: env where
  "scenario_env =
     \<lparr>subprocess_run =
        (\<lambda>command shell t.
           if last command = ascii ''pslist'' then Completed (ascii_bytes ''PID 1 init'')
           else if last command = ascii ''netscan'' then Raises TimeoutExpired
           else Completed []),
      mkdir_raises = (\<lambda>p. None),
      tasklist_cfg =
        Inr (ascii ''pslist-Process list'' @ [10] @ ascii ''netscan-Network scan'' @ [10]),
      write_raises = (\<lambda>p. None),
      linesep = [10]\<rparr>"

definition scenario_profile :: pystr where
  "scenario_profile = ascii ''Win10x64_19041''"

definition pslist_command :: "pystr list" where
  "pslist_command =
     [ascii ''vol.exe'', ascii ''--profile=Win10x64_19041'', ascii ''-f'', example_dump,
      ascii ''pslist'']"

definition netscan_command :: "pystr list" where
  "netscan_command =
     [ascii ''vol.exe'', ascii ''--profile=Win10x64_19041'', ascii ''-f'', example_dump,
      ascii ''netscan'']"

text \<open>A tool whose whole output is the byte 0xFF, which is not UTF-8.\<close>

definition invalid_utf8_env :: env where
  "invalid_utf8_env =
     \<lparr>subprocess_run = (\<lambda>command shell t. Completed [0xFF]),
      mkdir_raises = (\<lambda>p. None),
      tasklist_cfg = Inr (ascii ''pslist-Process list'' @ [10]),
      write_raises = (\<lambda>p. None),
      linesep = [10]\<rparr>"


text \<open>
  The two lists that \<open>analyze_memory_dump\<close> reads from the configuration of the scenario,
  and a world in which \<open>output/pslist.txt\<close> exists but cannot be decoded.
\<close>

definition two_names :: "pystr list" where
  "two_names = [ascii ''pslist'', ascii ''netscan'']"

definition two_helps :: "pystr list" where
  "two_helps = [ascii ''Process list'' @ [10], ascii ''Network scan'' @ [10]]"

definition unreadable_world :: world where
  "unreadable_world =
     empty_world\<lparr>files :=
       (\<lambda>p. if p = Child example_output (ascii ''pslist.txt'')
            then Some (Unreadable UnicodeDecodeError) else None)\<rparr>"

text \<open>
  The run of the scenario with the profile given on the command line, the task mapping it
  builds, and the world it leaves behind.
\<close>

definition scenario_tasks :: "(pystr \<times> pystr list) list" where
  "scenario_tasks = build_tasks (Some scenario_profile) example_dump two_names"

definition scenario_run :: "world \<Rightarrow> exn + world" where
  "scenario_run w =
     analyze_memory_dump scenario_env example_self example_dump (Some scenario_profile) False
       None w"

definition after_run :: "world \<Rightarrow> world" where
  "after_run w = (case scenario_run w of Inl e \<Rightarrow> w | Inr w1 \<Rightarrow> w1)"

text \<open>
  A run without a profile in which \<open>imageinfo\<close>, like every other command, prints
  nothing: no line of its output has the marker.
\<close>

definition pslist_cfg :: pystr where
  "pslist_cfg = ascii ''pslist-Process list'' @ [10]"

definition imageinfo_command :: "pystr list" where
  "imageinfo_command = [ascii ''vol.exe'', ascii ''-f'', example_dump, ascii ''imageinfo'']"

definition no_marker_run :: "exn + world" where
  "no_marker_run =
     analyze_memory_dump (cfg_env pslist_cfg) example_self example_dump None False None
       empty_world"

text \<open>A run in which \<open>tasklist.cfg\<close> cannot be opened.\<close>

definition no_cfg_env :: env where
  "no_cfg_env =
     \<lparr>subprocess_run = (\<lambda>command shell t. Completed []),
      mkdir_raises = (\<lambda>p. None),
      tasklist_cfg = Inl (OSError (ascii ''No such file or directory'')),
      write_raises = (\<lambda>p. None),
      linesep = [10]\<rparr>"

definition example_args :: args where
  "example_args =
     \<lparr>arg_memorydump_path = example_dump, arg_profile = Some scenario_profile,
      arg_dumpfiles = False, arg_dumpfiles_location = None, arg_timeout = 120,
      arg_volatility_path = ascii ''vol.exe''\<rparr>"

text \<open>
  The scenario on a full disk: every file is opened, and so created or truncated, and the
  write then fails, leaving the file empty.
\<close>

definition full_disk_env :: env where
  "full_disk_env =
     scenario_env\<lparr>write_raises :=
       (\<lambda>p. Some (Opened (OSError (ascii ''No space left on device'')) (Text [])))\<rparr>"

text \<open>
  A run whose configuration is the one line \<open>filescan-File scan\<close>, after the task
  \<open>filescan\<close> has written its output.
\<close>

definition filescan_done :: world where
  "filescan_done =
     empty_world\<lparr>files :=
       (\<lambda>p. if p = Child example_output (ascii ''filescan.txt'')
            then Some (Text (ascii ''0x3e0 secret.txt'')) else None)\<rparr>"

definition filescan_tasks :: "(pystr \<times> pystr list) list" where
  "filescan_tasks = build_tasks (Some scenario_profile) example_dump [ascii ''filescan'']"

section \<open>Facts about the Python operations\<close>

lemma py_split_not_Nil: "py_split sep s \<noteq> []"
  by (induction s) (auto split: list.splits)

lemma py_split_no_sep: "sep \<notin> set s \<Longrightarrow> py_split sep s = [s]"
  by (induction s) auto

lemma py_split_at_sep: "sep \<notin> set a \<Longrightarrow> py_split sep (a @ sep # b) = a # py_split sep b"
  by (induction a) auto

lemma py_split_takeWhile:
  "py_split sep s = takeWhile (\<lambda>c. c \<noteq> sep) s #
     (case dropWhile (\<lambda>c. c \<noteq> sep) s of [] \<Rightarrow> [] | c # r \<Rightarrow> py_split sep r)"
  by (induction s) (auto split: list.splits)

lemma py_nth_split_0: "py_nth (py_split sep s) 0 = Inr (takeWhile (\<lambda>c. c \<noteq> sep) s)"
  by (subst py_split_takeWhile) (simp add: py_nth_def)

lemma py_nth_split_1_none: "sep \<notin> set s \<Longrightarrow> py_nth (py_split sep s) 1 = Inl IndexError"
  by (simp add: py_split_no_sep py_nth_def)

lemma dropWhile_sep: "sep \<in> set s \<Longrightarrow> \<exists>r. dropWhile (\<lambda>c. c \<noteq> sep) s = sep # r"
  by (induction s) auto

lemma py_nth_split_1_some:
  "sep \<in> set s \<Longrightarrow>
   py_nth (py_split sep s) 1 =
     Inr (takeWhile (\<lambda>c. c \<noteq> sep) (tl (dropWhile (\<lambda>c. c \<noteq> sep) s)))"
proof -
  assume "sep \<in> set s"
  then obtain r where r: "dropWhile (\<lambda>c. c \<noteq> sep) s = sep # r"
    using dropWhile_sep by metis
  have "py_split sep s = takeWhile (\<lambda>c. c \<noteq> sep) s # py_split sep r"
    by (subst py_split_takeWhile) (simp add: r)
  moreover have "py_split sep r = takeWhile (\<lambda>c. c \<noteq> sep) r #
     (case dropWhile (\<lambda>c. c \<noteq> sep) r of [] \<Rightarrow> [] | c # r \<Rightarrow> py_split sep r)"
    by (rule py_split_takeWhile)
  ultimately show ?thesis by (simp add: py_nth_def r)
qed

lemma comprehension_total:
  "(\<And>x. x \<in> set xs \<Longrightarrow> f x = Inr (g x)) \<Longrightarrow> comprehension f xs = Inr (map g xs)"
  by (induction xs) auto

lemma comprehension_raises:
  assumes "x \<in> set xs" and "f x = Inl e"
    and "\<And>y e'. y \<in> set xs \<Longrightarrow> f y = Inl e' \<Longrightarrow> e' = e"
  shows "comprehension f xs = Inl e"
  using assms
proof (induction xs)
  case Nil
  then show ?case by simp
next
  case (Cons a xs)
  show ?case
  proof (cases "f a")
    case (Inl e')
    have "e' = e" by (rule Cons.prems(3)[of a]) (simp_all add: Inl)
    with Inl show ?thesis by simp
  next
    case (Inr v)
    then have "x \<noteq> a" using Cons.prems(2) by auto
    then have mem: "x \<in> set xs" using Cons.prems(1) by simp
    have rest: "\<And>y e'. y \<in> set xs \<Longrightarrow> f y = Inl e' \<Longrightarrow> e' = e"
      using Cons.prems(3) by (meson list.set_intros(2))
    have "comprehension f xs = Inl e"
      by (rule Cons.IH[OF mem Cons.prems(2) rest])
    with Inr show ?thesis by simp
  qed
qed

lemma readlines_line: "10 \<notin> set l \<Longrightarrow> readlines (l @ 10 # t) = (l @ [10]) # readlines t"
  by (induction l) auto

lemma readlines_last: "10 \<notin> set l \<Longrightarrow> c \<noteq> 10 \<Longrightarrow> readlines (c # l) = [c # l]"
  by (induction l arbitrary: c) auto

lemma utf8_decode_ignore: "\<exists>s. utf8_decode Ignore st bs = Inr s"
proof (induction bs arbitrary: st rule: length_induct)
  case (1 bs)
  show ?case
  proof (cases bs)
    case Nil
    then show ?thesis by (cases st) simp_all
  next
    case (Cons b bs')
    have IH: "\<And>st'. \<exists>s. utf8_decode Ignore st' bs' = Inr s"
      using 1 Cons by simp
    have start: "\<exists>s. utf8_decode Ignore Start (b # bs') = Inr s"
    proof (cases "utf8_lead b")
      case None
      then show ?thesis using IH[of Start] by simp
    next
      case (Some p)
      obtain out st' where p: "p = (out, st')" by (cases p)
      obtain s where "utf8_decode Ignore st' bs' = Inr s" using IH by blast
      with Some p show ?thesis by simp
    qed
    show ?thesis
    proof (cases st)
      case Start
      with start Cons show ?thesis by simp
    next
      case (Need k acc lo hi)
      show ?thesis
      proof (cases "lo \<le> b \<and> b \<le> hi")
        case False
        with start Need Cons show ?thesis by auto
      next
        case True
        show ?thesis
        proof (cases "k \<le> 1")
          case k: True
          obtain s where "utf8_decode Ignore Start bs' = Inr s" using IH by blast
          with True k Need Cons show ?thesis by simp
        next
          case k: False
          obtain s where "utf8_decode Ignore (Need (k - 1) (acc * 64 + unat (b AND 0x3F)) 0x80 0xBF) bs' = Inr s"
            using IH by blast
          with True k Need Cons show ?thesis by simp
        qed
      qed
    qed
  qed
qed

lemma charmap_decode_ignore: "\<exists>s. charmap_decode c Ignore bs = Inr s"
  by (induction bs) (auto split: option.splits)

lemma decode_ignore: "\<exists>s. decode c Ignore bs = Inr s"
  by (simp add: decode_def utf8_decode_ignore charmap_decode_ignore)

lemma decode_stdout_utf8: "decode_stdout b = decode UTF_8 Ignore b"
  using decode_ignore[of UTF_8 b] by (auto simp: decode_stdout_def)

section \<open>Facts about run_command and the dispatch\<close>

lemma files_notify [simp]: "files (notify label w) = files w"
  by (simp add: notify_def split: option.splits)

lemma logged_notify [simp]: "logged (notify label w) = logged w"
  by (simp add: notify_def split: option.splits)

lemma invoked_notify [simp]: "invoked (notify label w) = invoked w"
  by (simp add: notify_def split: option.splits)

lemma printed_notify [simp]: "printed (notify label w) = printed w"
  by (simp add: notify_def split: option.splits)

lemma progress_notify [simp]:
  "progress_manager (notify label w) = map_option (\<lambda>pm. update pm label) (progress_manager w)"
  by (simp add: notify_def split: option.splits)

lemma files_task_failed [simp]: "files (task_failed self task_name e w) = files w"
  by (simp add: task_failed_def)

lemma invoked_task_failed [simp]: "invoked (task_failed self task_name e w) = invoked w"
  by (simp add: task_failed_def)

lemma logged_task_failed:
  "logged (task_failed self task_name e w) =
     logged w @ [if e = TimeoutExpired then Task_timeout task_name (timeout self)
                 else Task_error task_name e]"
  by (simp add: task_failed_def)


lemma write_newlines_plain: "10 \<notin> set t \<Longrightarrow> write_newlines sep t = t"
  by (induction t) (simp_all add: write_newlines_def)

lemma write_newlines_posix: "write_newlines [10] t = t"
  by (induction t) (simp_all add: write_newlines_def)

lemma write_newlines_Nil_iff: "sep \<noteq> [] \<Longrightarrow> write_newlines sep t = [] \<longleftrightarrow> t = []"
  by (cases t) (simp_all add: write_newlines_def)

lemma run_command_raises:
  "subprocess_run env command True (Some (timeout self)) = Raises e \<Longrightarrow>
   run_command env self command task_name output_path tasks w =
     task_failed self task_name e (w\<lparr>invoked := invoked w @ [command]\<rparr>)"
  by (simp add: run_command_def)

lemma run_command_empty:
  "subprocess_run env command True (Some (timeout self)) = Completed stdout \<Longrightarrow>
   decode UTF_8 Ignore stdout = Inr [] \<Longrightarrow>
   run_command env self command task_name output_path tasks w =
     notify (task_name @ [32, 40, 26080, 36755, 20986, 41])
       (w\<lparr>invoked := invoked w @ [command],
          logged := logged w @ [Task_no_output task_name]\<rparr>)"
  by (simp add: run_command_def decode_stdout_utf8)

lemma run_command_written:
  "subprocess_run env command True (Some (timeout self)) = Completed stdout \<Longrightarrow>
   decode UTF_8 Ignore stdout = Inr output \<Longrightarrow> output \<noteq> [] \<Longrightarrow>
   write_raises env (Child output_path (txt_file task_name)) = None \<Longrightarrow>
   run_command env self command task_name output_path tasks w =
     notify task_name
       (w\<lparr>invoked := invoked w @ [command],
          files := (files w)(Child output_path (txt_file task_name) \<mapsto>
                      Text (write_newlines (linesep env) output))\<rparr>)"
  by (simp add: run_command_def decode_stdout_utf8 write_text_def)

lemma run_command_not_opened:
  "subprocess_run env command True (Some (timeout self)) = Completed stdout \<Longrightarrow>
   decode UTF_8 Ignore stdout = Inr output \<Longrightarrow> output \<noteq> [] \<Longrightarrow>
   write_raises env (Child output_path (txt_file task_name)) = Some (Not_opened e) \<Longrightarrow>
   run_command env self command task_name output_path tasks w =
     task_failed self task_name e (w\<lparr>invoked := invoked w @ [command]\<rparr>)"
  by (simp add: run_command_def decode_stdout_utf8 write_text_def)

lemma run_command_opened:
  "subprocess_run env command True (Some (timeout self)) = Completed stdout \<Longrightarrow>
   decode UTF_8 Ignore stdout = Inr output \<Longrightarrow> output \<noteq> [] \<Longrightarrow>
   write_raises env (Child output_path (txt_file task_name)) = Some (Opened e left) \<Longrightarrow>
   run_command env self command task_name output_path tasks w =
     task_failed self task_name e
       (w\<lparr>invoked := invoked w @ [command],
          files := (files w)(Child output_path (txt_file task_name) \<mapsto> left)\<rparr>)"
  by (simp add: run_command_def decode_stdout_utf8 write_text_def)

lemma run_command_cases:
  obtains (raises) e where "subprocess_run env command True (Some (timeout self)) = Raises e"
  | (empty) stdout where "subprocess_run env command True (Some (timeout self)) = Completed stdout"
      "decode UTF_8 Ignore stdout = Inr []"
  | (written) stdout decoded where
      "subprocess_run env command True (Some (timeout self)) = Completed stdout"
      "decode UTF_8 Ignore stdout = Inr decoded" "decoded \<noteq> []"
      "write_raises env p = None"
  | (not_opened) stdout decoded e where
      "subprocess_run env command True (Some (timeout self)) = Completed stdout"
      "decode UTF_8 Ignore stdout = Inr decoded" "decoded \<noteq> []"
      "write_raises env p = Some (Not_opened e)"
  | (opened) stdout decoded e left where
      "subprocess_run env command True (Some (timeout self)) = Completed stdout"
      "decode UTF_8 Ignore stdout = Inr decoded" "decoded \<noteq> []"
      "write_raises env p = Some (Opened e left)"
proof (cases "subprocess_run env command True (Some (timeout self))")
  case (Raises e)
  then show ?thesis by (rule raises)
next
  case (Completed stdout)
  obtain decoded where d: "decode UTF_8 Ignore stdout = Inr decoded"
    using decode_ignore by blast
  show ?thesis
  proof (cases "decoded = []")
    case True
    with Completed d show ?thesis using empty by simp
  next
    case False
    show ?thesis
    proof (cases "write_raises env p")
      case None
      with Completed d False show ?thesis using written by simp
    next
      case (Some failure)
      with Completed d False show ?thesis
        using not_opened opened by (cases failure) simp_all
    qed
  qed
qed

lemma invoked_run_command:
  "invoked (run_command env self command task_name output_path tasks w) = invoked w @ [command]"
  by (cases rule: run_command_cases[where env=env and command=command and self=self and p="Child output_path (txt_file task_name)"])
    (simp_all add: run_command_raises run_command_empty run_command_written run_command_not_opened
      run_command_opened)

lemma invoked_dispatch:
  "invoked (dispatch env self output_path tasks submitted w) =
     invoked w @ map (\<lambda>item. volatility_path self # snd item) submitted"
  unfolding dispatch_def
  by (induction submitted arbitrary: w) (simp_all add: invoked_run_command)




section \<open>Facts about the assembly of the report\<close>

lemma report_task_unresolved:
  "help_text_of tasklist tasklist_help fl flh task_name = Inl e \<Longrightarrow>
   report_task tasklist tasklist_help fl flh output_path task_name (markdown, w) =
     (markdown, w\<lparr>logged := logged w @ [Report_task_error task_name e]\<rparr>)"
  by (simp add: report_task_def)

lemma report_task_missing:
  "help_text_of tasklist tasklist_help fl flh task_name = Inr help_text \<Longrightarrow>
   files w (Child output_path (txt_file task_name)) = None \<Longrightarrow>
   report_task tasklist tasklist_help fl flh output_path task_name (markdown, w) =
     (markdown @ [heading task_name help_text, no_data], w)"
  by (simp add: report_task_def)

lemma report_task_text:
  "help_text_of tasklist tasklist_help fl flh task_name = Inr help_text \<Longrightarrow>
   files w (Child output_path (txt_file task_name)) = Some (Text content) \<Longrightarrow>
   report_task tasklist tasklist_help fl flh output_path task_name (markdown, w) =
     (markdown @ [heading task_name help_text, fenced (universal_newlines content)], w)"
  by (simp add: report_task_def)

lemma report_task_unreadable:
  "help_text_of tasklist tasklist_help fl flh task_name = Inr help_text \<Longrightarrow>
   files w (Child output_path (txt_file task_name)) = Some (Unreadable e) \<Longrightarrow>
   report_task tasklist tasklist_help fl flh output_path task_name (markdown, w) =
     (markdown @ [heading task_name help_text],
      w\<lparr>logged := logged w @ [Report_task_error task_name e]\<rparr>)"
  by (simp add: report_task_def)

lemma report_task_cases:
  obtains (unresolved) e where "help_text_of tasklist tasklist_help fl flh task_name = Inl e"
  | (missing) h where "help_text_of tasklist tasklist_help fl flh task_name = Inr h"
      "files w p = None"
  | (readable) h content where "help_text_of tasklist tasklist_help fl flh task_name = Inr h"
      "files w p = Some (Text content)"
  | (unreadable) h e where "help_text_of tasklist tasklist_help fl flh task_name = Inr h"
      "files w p = Some (Unreadable e)"
proof (cases "help_text_of tasklist tasklist_help fl flh task_name")
  case (Inl e)
  then show ?thesis by (rule unresolved)
next
  case (Inr h)
  show ?thesis
  proof (cases "files w p")
    case None
    with Inr show ?thesis by (rule missing)
  next
    case (Some f)
    with Inr show ?thesis by (cases f) (auto intro: readable unreadable)
  qed
qed

lemma report_task_appends:
  assumes "files w1 = files w"
  shows "fst (report_task tasklist tasklist_help fl flh output_path task_name (markdown, w1)) =
           markdown @
           fst (report_task tasklist tasklist_help fl flh output_path task_name ([], w)) \<and>
         files (snd (report_task tasklist tasklist_help fl flh output_path task_name
                       (markdown, w1))) = files w \<and>
         invoked (snd (report_task tasklist tasklist_help fl flh output_path task_name
                       (markdown, w1))) = invoked w1 \<and>
         progress_manager (snd (report_task tasklist tasklist_help fl flh output_path task_name
                       (markdown, w1))) = progress_manager w1"
proof (cases rule: report_task_cases[where tasklist=tasklist and tasklist_help=tasklist_help
        and fl=fl and flh=flh and task_name=task_name and w=w
        and p="Child output_path (txt_file task_name)"])
  case (unresolved e)
  then show ?thesis by (simp add: report_task_unresolved assms)
next
  case (missing h)
  then show ?thesis
    using report_task_missing[OF missing(1), of w1 output_path markdown]
      report_task_missing[OF missing(1), of w output_path "[]"]
    by (simp add: assms)
next
  case (readable h content)
  then show ?thesis
    using report_task_text[OF readable(1), of w1 output_path content markdown]
      report_task_text[OF readable(1), of w output_path content "[]"]
    by (simp add: assms)
next
  case (unreadable h e)
  then show ?thesis
    using report_task_unreadable[OF unreadable(1), of w1 output_path e markdown]
      report_task_unreadable[OF unreadable(1), of w output_path e "[]"]
    by (simp add: assms)
qed

lemma fold_report_task:
  assumes "files w1 = files w"
  shows "fst (fold (report_task tasklist tasklist_help fl flh output_path) names (markdown, w1)) =
           markdown @
           concat (map (\<lambda>n. fst (report_task tasklist tasklist_help fl flh output_path n
                                     ([], w))) names) \<and>
         files (snd (fold (report_task tasklist tasklist_help fl flh output_path) names
                       (markdown, w1))) = files w \<and>
         invoked (snd (fold (report_task tasklist tasklist_help fl flh output_path) names
                       (markdown, w1))) = invoked w1 \<and>
         progress_manager (snd (fold (report_task tasklist tasklist_help fl flh output_path) names
                       (markdown, w1))) = progress_manager w1"
  using assms
proof (induction names arbitrary: markdown w1)
  case Nil
  then show ?case by simp
next
  case (Cons n names)
  obtain md2 w2 where s: "report_task tasklist tasklist_help fl flh output_path n (markdown, w1) =
      (md2, w2)"
    by (cases "report_task tasklist tasklist_help fl flh output_path n (markdown, w1)")
  from report_task_appends[OF Cons.prems, of tasklist tasklist_help fl flh output_path n markdown]
  have a: "md2 = markdown @ fst (report_task tasklist tasklist_help fl flh output_path n ([], w))"
    and b: "files w2 = files w" and c: "invoked w2 = invoked w1"
    and d: "progress_manager w2 = progress_manager w1"
    by (simp_all add: s)
  from Cons.IH[OF b, of md2] show ?case
    by (simp add: s a c d)
qed

lemma markdown_of_sections:
  "fst (markdown_of tasks output_path tasklist tasklist_help fl flh w) =
     concat (map (\<lambda>n. fst (report_task tasklist tasklist_help fl flh output_path n ([], w)))
               (map fst tasks)) \<and>
   files (snd (markdown_of tasks output_path tasklist tasklist_help fl flh w)) = files w \<and>
   invoked (snd (markdown_of tasks output_path tasklist tasklist_help fl flh w)) = invoked w \<and>
   progress_manager (snd (markdown_of tasks output_path tasklist tasklist_help fl flh w)) =
     progress_manager w"
  unfolding markdown_of_def
  using fold_report_task[of w w tasklist tasklist_help fl flh output_path "map fst tasks" "[]"]
  by simp

lemma generate_markdown_written:
  assumes "write_raises env (Child output_path (ascii ''summary.md'')) = None"
  shows "files (generate_markdown env tasks output_path tasklist tasklist_help fl flh w) =
           (files w)(Child output_path (ascii ''summary.md'') \<mapsto>
              Text (write_newlines (linesep env) (py_join [10]
                (fst (markdown_of tasks output_path tasklist tasklist_help fl flh w)))))"
proof -
  obtain md w1 where m: "markdown_of tasks output_path tasklist tasklist_help fl flh w = (md, w1)"
    by (cases "markdown_of tasks output_path tasklist tasklist_help fl flh w")
  have "files w1 = files w"
    using markdown_of_sections[of tasks output_path tasklist tasklist_help fl flh w]
    by (simp add: m)
  then show ?thesis
    by (simp add: generate_markdown_def m write_text_def assms)
qed

lemma invoked_generate_markdown:
  "invoked (generate_markdown env tasks output_path tasklist tasklist_help fl flh w) = invoked w"
proof -
  obtain md w1 where m: "markdown_of tasks output_path tasklist tasklist_help fl flh w = (md, w1)"
    by (cases "markdown_of tasks output_path tasklist tasklist_help fl flh w")
  have "invoked w1 = invoked w"
    using markdown_of_sections[of tasks output_path tasklist tasklist_help fl flh w]
    by (simp add: m)
  then show ?thesis
    by (simp add: generate_markdown_def m write_text_def
        split: option.splits write_failure.splits)
qed

section \<open>Facts about the task mapping and the help texts\<close>

lemma py_in_prefix: "py_in sub (sub @ rest)"
proof (cases sub)
  case Nil
  then show ?thesis by (cases rest) simp_all
next
  case (Cons a s)
  then show ?thesis by simp
qed

lemma py_in_filescan_name: "py_in (ascii ''filescan'') (filescan_name t)"
proof -
  have "filescan_name t = ascii ''filescan'' @ (40 # t @ [41])"
    by (simp add: filescan_name_def ascii_def)
  then show ?thesis by (simp only: py_in_prefix)
qed

lemma keys_fold_update:
  "distinct (map f ks) \<Longrightarrow> set (map f ks) \<inter> set (map fst al) = {} \<Longrightarrow>
   map fst (fold (\<lambda>k tasks. AList.update (f k) (g k) tasks) ks al) = map fst al @ map f ks"
proof (induction ks arbitrary: al)
  case Nil
  then show ?case by simp
next
  case (Cons k ks)
  have new: "f k \<notin> set (map fst al)" using Cons.prems(2) by auto
  have keys: "map fst (AList.update (f k) (g k) al) = map fst al @ [f k]"
    using new by (simp add: update_keys)
  have d: "distinct (map f ks)" using Cons.prems(1) by simp
  have i: "set (map f ks) \<inter> set (map fst (AList.update (f k) (g k) al)) = {}"
    using Cons.prems by (auto simp: keys)
  show ?case
    using Cons.IH[OF d i] by (simp add: keys)
qed

lemma distinct_filescan_names: "distinct (map filescan_name task_filescanlist)"
  by (simp add: task_filescanlist_def filescan_name_def ascii_def)

lemma keys_build_tasks:
  assumes "distinct tasklist" and "\<forall>n\<in>set tasklist. \<not> py_in (ascii ''filescan'') n"
  shows "map fst (build_tasks profile memorydump_path tasklist) =
           tasklist @ map filescan_name task_filescanlist"
proof -
  let ?catalog = "fold (\<lambda>task tasks.
                AList.update task
                  [ascii ''--profile='' @ py_format profile, ascii ''-f'', memorydump_path, task]
                  tasks)
          tasklist []"
  have c: "map fst ?catalog = tasklist"
    using keys_fold_update[where f="\<lambda>k. k" and ks=tasklist and al="[]"
        and g="\<lambda>task. [ascii ''--profile='' @ py_format profile, ascii ''-f'',
                        memorydump_path, task]"] assms(1)
    by simp
  have disj: "set (map filescan_name task_filescanlist) \<inter> set (map fst ?catalog) = {}"
    using assms(2) py_in_filescan_name by (auto simp: c)
  show ?thesis
    unfolding build_tasks_def
    using keys_fold_update[where f=filescan_name and ks=task_filescanlist and al="?catalog"
        and g="\<lambda>task_filescan. [ascii ''--profile='' @ py_format profile, ascii ''-f'',
                 memorydump_path, ascii ''filescan'', ascii ''|'', ascii ''findstr'',
                 task_filescan]", OF distinct_filescan_names disj]
    by (simp add: c)
qed

lemma py_index_nth: "distinct xs \<Longrightarrow> i < length xs \<Longrightarrow> py_index xs (xs ! i) = Inr i"
proof (induction xs arbitrary: i)
  case Nil
  then show ?case by simp
next
  case (Cons x xs)
  show ?case
  proof (cases i)
    case 0
    then show ?thesis by simp
  next
    case (Suc j)
    with Cons.prems have "xs ! j \<noteq> x" by auto
    with Suc Cons show ?thesis by simp
  qed
qed

lemma help_text_of_catalog:
  assumes "distinct tasklist" and "i < length tasklist"
    and "length tasklist_help = length tasklist"
    and "\<not> py_in (ascii ''filescan'') (tasklist ! i)"
  shows "help_text_of tasklist tasklist_help fl flh (tasklist ! i) = Inr (tasklist_help ! i)"
  using assms by (simp add: help_text_of_def py_index_nth py_nth_def)

lemma help_text_of_filter:
  "map (\<lambda>t. help_text_of tasklist tasklist_help task_filescanlist task_filescanlist_help
              (filescan_name t)) task_filescanlist =
   map Inr task_filescanlist_help"
  by (simp add: help_text_of_def py_in_filescan_name)
    (simp add: task_filescanlist_def task_filescanlist_help_def filescan_name_def ascii_def
      py_nth_def)

lemma section_resolved:
  assumes "help_text_of tasklist tasklist_help fl flh n = Inr h"
    and "\<forall>e. files w (Child output_path (txt_file n)) \<noteq> Some (Unreadable e)"
  shows "fst (report_task tasklist tasklist_help fl flh output_path n ([], w)) =
           section_of w output_path (n, h)"
proof (cases "files w (Child output_path (txt_file n))")
  case None
  then show ?thesis
    by (simp add: report_task_missing[OF assms(1) None] section_of_def
        None[unfolded txt_file_def])
next
  case (Some f)
  show ?thesis
  proof (cases f)
    case (Text content)
    with Some have t: "files w (Child output_path (txt_file n)) = Some (Text content)" by simp
    show ?thesis
      by (simp add: report_task_text[OF assms(1) t] section_of_def t[unfolded txt_file_def])
  next
    case (Unreadable e)
    with Some assms(2) show ?thesis by simp
  qed
qed

lemma length_filescanlists:
  "length task_filescanlist = 5" "length task_filescanlist_help = 5"
  by (simp_all add: task_filescanlist_def task_filescanlist_help_def)

lemma help_text_of_filter_nth:
  assumes "i < 5"
  shows "help_text_of tasklist tasklist_help task_filescanlist task_filescanlist_help
           (filescan_name (task_filescanlist ! i)) = Inr (task_filescanlist_help ! i)"
proof -
  have "map (\<lambda>t. help_text_of tasklist tasklist_help task_filescanlist task_filescanlist_help
              (filescan_name t)) task_filescanlist ! i =
        map Inr task_filescanlist_help ! i"
    by (simp only: help_text_of_filter)
  then show ?thesis
    using assms by (simp add: length_filescanlists)
qed

lemma catalog_sections:
  assumes "distinct tasklist" and "\<forall>n\<in>set tasklist. \<not> py_in (ascii ''filescan'') n"
    and "length tasklist_help = length tasklist"
    and "\<forall>n\<in>set tasklist. \<forall>e. files w (Child output_path (txt_file n)) \<noteq> Some (Unreadable e)"
  shows "map (\<lambda>n. fst (report_task tasklist tasklist_help fl flh output_path n ([], w))) tasklist =
         map (section_of w output_path) (zip tasklist tasklist_help)"
proof (rule nth_equalityI)
  show "length (map (\<lambda>n. fst (report_task tasklist tasklist_help fl flh output_path n ([], w)))
                  tasklist) =
        length (map (section_of w output_path) (zip tasklist tasklist_help))"
    by (simp add: assms(3))
next
  fix i
  assume "i < length (map (\<lambda>n. fst (report_task tasklist tasklist_help fl flh output_path n
                                      ([], w))) tasklist)"
  then have i: "i < length tasklist" by simp
  then have mem: "tasklist ! i \<in> set tasklist" by simp
  have h: "help_text_of tasklist tasklist_help fl flh (tasklist ! i) = Inr (tasklist_help ! i)"
    using help_text_of_catalog[OF assms(1) i assms(3)] assms(2) mem by blast
  have r: "\<forall>e. files w (Child output_path (txt_file (tasklist ! i))) \<noteq> Some (Unreadable e)"
    using assms(4) mem by blast
  show "map (\<lambda>n. fst (report_task tasklist tasklist_help fl flh output_path n ([], w)))
          tasklist ! i =
        map (section_of w output_path) (zip tasklist tasklist_help) ! i"
    using i by (simp add: section_resolved[OF h r] assms(3))
qed

lemma filter_sections:
  assumes "\<forall>n\<in>set (map filescan_name task_filescanlist).
             \<forall>e. files w (Child output_path (txt_file n)) \<noteq> Some (Unreadable e)"
  shows "map (\<lambda>n. fst (report_task tasklist tasklist_help task_filescanlist
                          task_filescanlist_help output_path n ([], w)))
           (map filescan_name task_filescanlist) =
         map (section_of w output_path)
           (zip (map filescan_name task_filescanlist) task_filescanlist_help)"
proof (rule nth_equalityI)
  show "length (map (\<lambda>n. fst (report_task tasklist tasklist_help task_filescanlist
                          task_filescanlist_help output_path n ([], w)))
           (map filescan_name task_filescanlist)) =
        length (map (section_of w output_path)
           (zip (map filescan_name task_filescanlist) task_filescanlist_help))"
    by (simp add: length_filescanlists)
next
  fix i
  assume "i < length (map (\<lambda>n. fst (report_task tasklist tasklist_help task_filescanlist
                          task_filescanlist_help output_path n ([], w)))
           (map filescan_name task_filescanlist))"
  then have i: "i < 5" by (simp add: length_filescanlists)
  then have mem: "filescan_name (task_filescanlist ! i) \<in>
      set (map filescan_name task_filescanlist)"
    by (simp add: length_filescanlists)
  have r: "\<forall>e. files w (Child output_path (txt_file (filescan_name (task_filescanlist ! i)))) \<noteq>
      Some (Unreadable e)"
    using assms mem by blast
  show "map (\<lambda>n. fst (report_task tasklist tasklist_help task_filescanlist
                          task_filescanlist_help output_path n ([], w)))
           (map filescan_name task_filescanlist) ! i =
        map (section_of w output_path)
           (zip (map filescan_name task_filescanlist) task_filescanlist_help) ! i"
    using i by (simp add: section_resolved[OF help_text_of_filter_nth[OF i] r]
        length_filescanlists)
qed

lemma two_names_plain: "\<forall>n\<in>set two_names. \<not> py_in (ascii ''filescan'') n"
  by (simp add: two_names_def ascii_def)

lemma no_unreadable_pslist_done:
  "\<forall>e. files pslist_done p \<noteq> Some (Unreadable e)"
  by (simp add: pslist_done_def)

lemma no_unreadable_empty_world:
  "\<forall>e. files empty_world p \<noteq> Some (Unreadable e)"
  by (simp add: empty_world_def)

section \<open>Facts about analyze_memory_dump\<close>

lemma analyze_with_profile:
  assumes "mkdir_raises env (Child (Dirname memorydump_path) (ascii ''output'')) = None"
    and "truthy profile" and "\<not> (dumpfiles \<and> truthy dumpfiles_location)"
    and "read_config env = Inr (tasklist, tasklist_help)"
  shows "analyze_memory_dump env self memorydump_path profile dumpfiles dumpfiles_location w =
     Inr (generate_markdown env (build_tasks profile memorydump_path tasklist)
            (Child (Dirname memorydump_path) (ascii ''output'')) tasklist tasklist_help
            task_filescanlist task_filescanlist_help
            (dispatch env self (Child (Dirname memorydump_path) (ascii ''output''))
               (build_tasks profile memorydump_path tasklist)
               (build_tasks profile memorydump_path tasklist)
               (w\<lparr>progress_manager :=
                    Some (ProgressManager_init (length tasklist + length task_filescanlist))\<rparr>)))"
  using assms by (auto simp: analyze_memory_dump_def Let_def)

lemma analyze_detected:
  assumes "mkdir_raises env (Child (Dirname memorydump_path) (ascii ''output'')) = None"
    and "\<not> truthy profile"
    and "subprocess_run env
           [volatility_path self, ascii ''-f'', memorydump_path, ascii ''imageinfo''] False None =
         Completed stdout"
    and "decode CP1252 Ignore stdout = Inr decoded"
    and "find_profile (py_split 10 decoded) profile = Inr profile1"
    and "read_config env = Inr (tasklist, tasklist_help)"
  shows "analyze_memory_dump env self memorydump_path profile dumpfiles dumpfiles_location w =
     Inr (generate_markdown env (build_tasks profile1 memorydump_path tasklist)
            (Child (Dirname memorydump_path) (ascii ''output'')) tasklist tasklist_help
            task_filescanlist task_filescanlist_help
            (dispatch env self (Child (Dirname memorydump_path) (ascii ''output''))
               (build_tasks profile1 memorydump_path tasklist)
               (build_tasks profile1 memorydump_path tasklist)
               (w\<lparr>invoked := invoked w @
                      [[volatility_path self, ascii ''-f'', memorydump_path, ascii ''imageinfo'']],
                  progress_manager :=
                    Some (ProgressManager_init (length tasklist + length task_filescanlist))\<rparr>)))"
  using assms by (auto simp: analyze_memory_dump_def detect_profile_def Let_def)

lemma read_config_fails:
  assumes "tasklist_cfg env = Inl e0 \<or>
           (\<exists>text line. tasklist_cfg env = Inr text \<and> line \<in> set (readlines text) \<and>
              45 \<notin> set line)"
  shows "\<exists>e. read_config env = Inl e"
proof (cases "tasklist_cfg env")
  case (Inl e)
  then show ?thesis by (simp add: read_config_def)
next
  case (Inr cfg)
  with assms obtain l where line: "l \<in> set (readlines cfg)" "45 \<notin> set l"
    by auto
  have a: "comprehension (\<lambda>line. py_nth (py_split 45 line) 0) (readlines cfg) =
      Inr (map (takeWhile (\<lambda>c. c \<noteq> 45)) (readlines cfg))"
    by (rule comprehension_total) (simp add: py_nth_split_0)
  have b: "comprehension (\<lambda>line. py_nth (py_split 45 line) 1) (readlines cfg) = Inl IndexError"
  proof (rule comprehension_raises[OF line(1)])
    show "py_nth (py_split 45 l) 1 = Inl IndexError"
      using line(2) by (rule py_nth_split_1_none)
  next
    fix y e'
    assume "py_nth (py_split 45 y) 1 = Inl e'"
    then show "e' = IndexError"
      by (simp add: py_nth_def split: if_splits)
  qed
  show ?thesis
    by (simp add: read_config_def Inr a b[unfolded One_nat_def] Let_def)
qed

lemma analyze_config_error:
  assumes "read_config env = Inl e"
    and "mkdir_raises env (Child (Dirname memorydump_path) (ascii ''output'')) = None"
    and "\<not> (dumpfiles \<and> truthy profile \<and> truthy dumpfiles_location)"
  shows "\<exists>w'. analyze_memory_dump env self memorydump_path profile dumpfiles
                 dumpfiles_location w = Inr w' \<and>
              files w' = files w \<and> progress_manager w' = progress_manager w \<and>
              (invoked w' = invoked w \<or>
               invoked w' = invoked w @
                 [[volatility_path self, ascii ''-f'', memorydump_path, ascii ''imageinfo'']])"
proof (cases "truthy profile")
  case True
  with assms show ?thesis
    by (auto simp: analyze_memory_dump_def Let_def)
next
  case False
  show ?thesis
  proof (cases "detect_profile env self memorydump_path profile w")
    case (Inl w1)
    then have "files w1 = files w \<and> progress_manager w1 = progress_manager w \<and>
        invoked w1 = invoked w @
          [[volatility_path self, ascii ''-f'', memorydump_path, ascii ''imageinfo'']]"
      by (auto simp: detect_profile_def Let_def split: proc_result.splits sum.splits)
    with Inl False assms show ?thesis
      by (simp add: analyze_memory_dump_def Let_def)
  next
    case (Inr r)
    obtain profile1 w1 where r: "r = (profile1, w1)" by (cases r)
    from Inr r have "files w1 = files w \<and> progress_manager w1 = progress_manager w \<and>
        invoked w1 = invoked w @
          [[volatility_path self, ascii ''-f'', memorydump_path, ascii ''imageinfo'']]"
      by (auto simp: detect_profile_def Let_def split: proc_result.splits sum.splits)
    with Inr r False assms show ?thesis
      by (simp add: analyze_memory_dump_def Let_def)
  qed
qed

lemma analyze_raises_iff:
  "(\<exists>e. analyze_memory_dump env self memorydump_path profile dumpfiles dumpfiles_location w =
         Inl e) \<longleftrightarrow>
   mkdir_raises env (Child (Dirname memorydump_path) (ascii ''output'')) \<noteq> None"
  by (auto simp: analyze_memory_dump_def Let_def split: option.splits sum.splits prod.splits)

lemma read_config_unreadable: "tasklist_cfg env = Inl e \<Longrightarrow> read_config env = Inl e"
  by (simp add: read_config_def)

lemma read_config_malformed:
  assumes "tasklist_cfg env = Inr cfg" and "l \<in> set (readlines cfg)" and "45 \<notin> set l"
  shows "read_config env = Inl IndexError"
proof -
  have a: "comprehension (\<lambda>line. py_nth (py_split 45 line) 0) (readlines cfg) =
      Inr (map (takeWhile (\<lambda>c. c \<noteq> 45)) (readlines cfg))"
    by (rule comprehension_total) (simp add: py_nth_split_0)
  have b: "comprehension (\<lambda>line. py_nth (py_split 45 line) 1) (readlines cfg) = Inl IndexError"
  proof (rule comprehension_raises[OF assms(2)])
    show "py_nth (py_split 45 l) 1 = Inl IndexError"
      using assms(3) by (rule py_nth_split_1_none)
  next
    fix y e'
    assume "py_nth (py_split 45 y) 1 = Inl e'"
    then show "e' = IndexError"
      by (simp add: py_nth_def split: if_splits)
  qed
  show ?thesis
    by (simp add: read_config_def assms(1) a b[unfolded One_nat_def] Let_def)
qed

lemma analyze_config_error_given:
  assumes "read_config env = Inl e"
    and "mkdir_raises env (Child (Dirname memorydump_path) (ascii ''output'')) = None"
    and "truthy profile" and "\<not> (dumpfiles \<and> truthy dumpfiles_location)"
  shows "analyze_memory_dump env self memorydump_path profile dumpfiles dumpfiles_location w =
           Inr (w\<lparr>logged := logged w @ [Config_error e]\<rparr>)"
  using assms by (auto simp: analyze_memory_dump_def Let_def)

lemma analyze_config_error_detected:
  assumes "read_config env = Inl e"
    and "mkdir_raises env (Child (Dirname memorydump_path) (ascii ''output'')) = None"
    and "\<not> truthy profile"
    and "subprocess_run env
           [volatility_path self, ascii ''-f'', memorydump_path, ascii ''imageinfo''] False None =
         Completed stdout"
    and "decode CP1252 Ignore stdout = Inr decoded"
    and "find_profile (py_split 10 decoded) profile = Inr profile1"
  shows "analyze_memory_dump env self memorydump_path profile dumpfiles dumpfiles_location w =
           Inr (w\<lparr>invoked := invoked w @
                    [[volatility_path self, ascii ''-f'', memorydump_path, ascii ''imageinfo'']],
                  logged := logged w @ [Config_error e]\<rparr>)"
  using assms by (auto simp: analyze_memory_dump_def detect_profile_def Let_def)

lemma dump_files_effect:
  "files (dump_files env self memorydump_path profile location w) = files w \<and>
   progress_manager (dump_files env self memorydump_path profile location w) =
     progress_manager w \<and>
   invoked (dump_files env self memorydump_path profile location w) =
     invoked w @
       [[volatility_path self, ascii ''-f'', memorydump_path, ascii ''--profile='' @ profile,
         ascii ''dumpfiles'', ascii ''-Q'', location, ascii ''-D'', ascii ''./'']]"
  by (simp add: dump_files_def Let_def split: proc_result.splits sum.splits)

section \<open>The completion oracle\<close>

text \<open>
  Claim C9. For every world, output directory and task mapping, \<open>get_remaining_tasks\<close>
  returns the keys of the mapping whose file \<open>output_path / (name + ".txt")\<close> does not
  exist: exactly those, in the order of the mapping, and no other name.
\<close>

theorem get_remaining_tasks_correct:
  "get_remaining_tasks w output_path tasks =
     filter (\<lambda>n. files w (Child output_path (txt_file n)) = None) (map fst tasks) \<and>
   set (get_remaining_tasks w output_path tasks) =
     {n \<in> set (map fst tasks). \<not> path_exists w (Child output_path (txt_file n))} \<and>
   subseq (get_remaining_tasks w output_path tasks) (map fst tasks)"
proof -
  have eq: "get_remaining_tasks w output_path tasks =
     filter (\<lambda>n. files w (Child output_path (txt_file n)) = None) (map fst tasks)"
    unfolding get_remaining_tasks_def path_exists_def
    by (induction tasks) auto
  show ?thesis
    unfolding eq by (auto simp: path_exists_def)
qed

theorem get_remaining_tasks_correct_witness:
  "get_remaining_tasks pslist_done example_output two_tasks = [ascii ''netscan'']"
  using get_remaining_tasks_correct [of pslist_done example_output two_tasks]
  by (simp add: pslist_done_def two_tasks_def txt_file_def ascii_def empty_world_def)

section \<open>The fields of a configuration line\<close>

lemma read_config_dashes:
  assumes "tasklist_cfg env = Inr text" and "\<forall>line\<in>set (readlines text). 45 \<in> set line"
  shows "read_config env =
    Inr (map (takeWhile (\<lambda>c. c \<noteq> 45)) (readlines text),
         map (\<lambda>line. takeWhile (\<lambda>c. c \<noteq> 45) (tl (dropWhile (\<lambda>c. c \<noteq> 45) line)))
           (readlines text))"
proof -
  have a: "comprehension (\<lambda>line. py_nth (py_split 45 line) 0) (readlines text) =
      Inr (map (takeWhile (\<lambda>c. c \<noteq> 45)) (readlines text))"
    by (rule comprehension_total) (simp add: py_nth_split_0)
  have b: "comprehension (\<lambda>line. py_nth (py_split 45 line) 1) (readlines text) =
      Inr (map (\<lambda>line. takeWhile (\<lambda>c. c \<noteq> 45) (tl (dropWhile (\<lambda>c. c \<noteq> 45) line)))
           (readlines text))"
  proof (rule comprehension_total)
    fix x assume "x \<in> set (readlines text)"
    then have "45 \<in> set x" using assms(2) by blast
    then show "py_nth (py_split 45 x) 1 =
        Inr (takeWhile (\<lambda>c. c \<noteq> 45) (tl (dropWhile (\<lambda>c. c \<noteq> 45) x)))"
      by (rule py_nth_split_1_some)
  qed
  show ?thesis
    by (simp add: read_config_def assms(1) a b[unfolded One_nat_def] Let_def)
qed

lemma fields_of_line:
  assumes "(45::nat) \<notin> set name" and "45 \<notin> set help"
  shows "takeWhile (\<lambda>c. c \<noteq> 45) (name @ 45 # help @ tail) = name"
    and "tail = [] \<or> hd tail = 45 \<Longrightarrow>
         takeWhile (\<lambda>c. c \<noteq> 45) (tl (dropWhile (\<lambda>c. c \<noteq> 45) (name @ 45 # help @ tail))) = help"
proof -
  show "takeWhile (\<lambda>c. c \<noteq> 45) (name @ 45 # help @ tail) = name"
    using assms(1) by (induction name) auto
  have d: "dropWhile (\<lambda>c. c \<noteq> 45) (name @ 45 # help @ tail) = 45 # help @ tail"
    using assms(1) by (induction name) auto
  assume "tail = [] \<or> hd tail = 45"
  then have "takeWhile (\<lambda>c. c \<noteq> 45) tail = []"
    by (cases tail) auto
  then have "takeWhile (\<lambda>c. c \<noteq> 45) (help @ tail) = help"
    using assms(2) by (induction "help") auto
  then show "takeWhile (\<lambda>c. c \<noteq> 45) (tl (dropWhile (\<lambda>c. c \<noteq> 45) (name @ 45 # help @ tail))) = help"
    by (simp add: d)
qed

lemma readlines_two_line_cfg:
  "readlines two_line_cfg = [ascii ''pslist-Process list-v2'' @ [10], ascii ''netscan-Net'' @ [10]]"
  by (simp add: two_line_cfg_def ascii_def)

text \<open>
  Claim C10. When every line of the configuration has a separator, the task name of a
  line is the text before its first \<open>-\<close>. For a line with a second separator the help
  text is the piece between the first and the second one, and what follows is dropped; for
  a line whose help text is its last field, the help text ends with the newline of the
  line.
\<close>

theorem read_config_fields:
  assumes "tasklist_cfg env = Inr text"
    and "\<forall>line\<in>set (readlines text). 45 \<in> set line"
    and "i < length (readlines text)"
    and "45 \<notin> set name" and "45 \<notin> set help"
  shows "\<exists>tasklist tasklist_help.
           read_config env = Inr (tasklist, tasklist_help) \<and>
           (readlines text ! i = name @ 45 # help @ 45 # rest \<longrightarrow>
              tasklist ! i = name \<and> tasklist_help ! i = help) \<and>
           (readlines text ! i = name @ 45 # help @ [10] \<longrightarrow>
              tasklist ! i = name \<and> tasklist_help ! i = help @ [10])"
proof -
  have h10: "45 \<notin> set (help @ [10])" using assms(5) by simp
  show ?thesis
    using fields_of_line(1)[OF assms(4) assms(5), of "45 # rest"]
      fields_of_line(2)[OF assms(4) assms(5), of "45 # rest"]
      fields_of_line(1)[OF assms(4) h10, of "[]"]
      fields_of_line(2)[OF assms(4) h10, of "[]"]
    by (simp add: read_config_dashes[OF assms(1) assms(2)] assms(3))
qed

theorem read_config_fields_witness:
  "read_config (cfg_env two_line_cfg) =
     Inr ([ascii ''pslist'', ascii ''netscan''], [ascii ''Process list'', ascii ''Net'' @ [10]])"
  using read_config_fields [of "cfg_env two_line_cfg" two_line_cfg 0 "ascii ''pslist''"
          "ascii ''Process list''" "ascii ''v2'' @ [10]"]
        read_config_fields [of "cfg_env two_line_cfg" two_line_cfg 1 "ascii ''netscan''"
          "ascii ''Net''" "[]"]
  by (simp add: readlines_two_line_cfg read_config_def cfg_env_def)
    (simp add: ascii_def py_nth_def)

section \<open>What a task persists\<close>

lemma decode_pid: "decode UTF_8 Ignore (ascii_bytes ''PID 1 init'') = Inr (ascii ''PID 1 init'')"
  by (simp add: decode_def ascii_bytes_def ascii_def utf8_lead_def)

lemma pslist_txt: "ascii ''pslist'' @ ascii ''.txt'' = ascii ''pslist.txt''"
  by (simp add: ascii_def)

lemma run_scenario_pslist:
  "subprocess_run scenario_env pslist_command True (Some (timeout example_self)) =
     Completed (ascii_bytes ''PID 1 init'')"
  "subprocess_run full_disk_env pslist_command True (Some (timeout example_self)) =
     Completed (ascii_bytes ''PID 1 init'')"
  by (simp_all add: scenario_env_def full_disk_env_def pslist_command_def)

lemma full_disk_run:
  "run_command full_disk_env example_self pslist_command (ascii ''pslist'') example_output
     two_tasks pslist_done =
   task_failed example_self (ascii ''pslist'') (OSError (ascii ''No space left on device''))
     (pslist_done\<lparr>invoked := invoked pslist_done @ [pslist_command],
        files := (files pslist_done)(Child example_output (txt_file (ascii ''pslist'')) \<mapsto>
                    Text [])\<rparr>)"
proof -
  have ne: "ascii ''PID 1 init'' \<noteq> []"
    by (simp add: ascii_def)
  have wr: "write_raises full_disk_env (Child example_output (txt_file (ascii ''pslist''))) =
      Some (Opened (OSError (ascii ''No space left on device'')) (Text []))"
    by (simp add: full_disk_env_def)
  show ?thesis
    by (rule run_command_opened[OF run_scenario_pslist(2) decode_pid ne wr])
qed

text \<open>
  Claim C4 as stated fails for a write that fails after the file was opened.
  \<open>write_text\<close> opens \<open>output/pslist.txt\<close> with mode \<open>w\<close> and so truncates it; the
  write then raises, \<open>run_command\<close> records an execution error, and the result of an
  earlier run is gone: the file is there, empty.
\<close>

theorem failed_write_truncates_the_file:
  "files pslist_done (Child example_output (ascii ''pslist.txt'')) =
     Some (Text (ascii ''PID 1 init'')) \<and>
   logged (run_command full_disk_env example_self pslist_command (ascii ''pslist'') example_output two_tasks pslist_done) =
     [Task_error (ascii ''pslist'') (OSError (ascii ''No space left on device''))] \<and>
   files (run_command full_disk_env example_self pslist_command (ascii ''pslist'') example_output two_tasks pslist_done)
     (Child example_output (ascii ''pslist.txt'')) = Some (Text [])"
  by (simp add: full_disk_run logged_task_failed txt_file_def pslist_txt)
    (simp add: pslist_done_def empty_world_def pslist_txt)

text \<open>
  Claim C4, amended. A call of \<open>run_command\<close> persists the decoded output, complete, in
  \<open>output_path / (name + ".txt")\<close> exactly when the process returned, the decoded output
  is not empty and the write did not raise; then nothing is logged. With an empty output,
  a timeout, an error of the process, or a file that could not be opened, the files stay
  as they were and one record is logged. When the write raises after the file was
  opened, an error is logged and the file is left with what the failed write put there.
  The files change in no other case, and no outcome stops the run: every submitted task
  is invoked.
\<close>

theorem run_command_persistence:
  "(subprocess_run env command True (Some (timeout self)) = Completed stdout \<and>
    decode_stdout stdout = Inr out \<and> out \<noteq> [] \<and>
    write_raises env (Child output_path (task_name @ ascii ''.txt'')) = None \<longrightarrow>
      files (run_command env self command task_name output_path tasks w) =
        (files w)(Child output_path (task_name @ ascii ''.txt'') \<mapsto>
           Text (write_newlines (linesep env) out)) \<and>
      logged (run_command env self command task_name output_path tasks w) = logged w) \<and>
   (subprocess_run env command True (Some (timeout self)) = Completed stdout \<and>
    decode_stdout stdout = Inr [] \<longrightarrow>
      files (run_command env self command task_name output_path tasks w) = files w \<and>
      logged (run_command env self command task_name output_path tasks w) =
        logged w @ [Task_no_output task_name]) \<and>
   (subprocess_run env command True (Some (timeout self)) = Raises TimeoutExpired \<longrightarrow>
      files (run_command env self command task_name output_path tasks w) = files w \<and>
      logged (run_command env self command task_name output_path tasks w) =
        logged w @ [Task_timeout task_name (timeout self)]) \<and>
   (subprocess_run env command True (Some (timeout self)) = Raises e \<and> e \<noteq> TimeoutExpired \<longrightarrow>
      files (run_command env self command task_name output_path tasks w) = files w \<and>
      logged (run_command env self command task_name output_path tasks w) =
        logged w @ [Task_error task_name e]) \<and>
   (subprocess_run env command True (Some (timeout self)) = Completed stdout \<and>
    decode_stdout stdout = Inr out \<and> out \<noteq> [] \<and>
    write_raises env (Child output_path (task_name @ ascii ''.txt'')) = Some (Not_opened e) \<and>
    e \<noteq> TimeoutExpired \<longrightarrow>
      files (run_command env self command task_name output_path tasks w) = files w \<and>
      logged (run_command env self command task_name output_path tasks w) =
        logged w @ [Task_error task_name e]) \<and>
   (subprocess_run env command True (Some (timeout self)) = Completed stdout \<and>
    decode_stdout stdout = Inr out \<and> out \<noteq> [] \<and>
    write_raises env (Child output_path (task_name @ ascii ''.txt'')) = Some (Opened e left) \<and>
    e \<noteq> TimeoutExpired \<longrightarrow>
      files (run_command env self command task_name output_path tasks w) =
        (files w)(Child output_path (task_name @ ascii ''.txt'') \<mapsto> left) \<and>
      logged (run_command env self command task_name output_path tasks w) =
        logged w @ [Task_error task_name e]) \<and>
   (files (run_command env self command task_name output_path tasks w) \<noteq> files w \<longrightarrow>
      (\<exists>stdout out.
         subprocess_run env command True (Some (timeout self)) = Completed stdout \<and>
         decode_stdout stdout = Inr out \<and> out \<noteq> [] \<and>
         (write_raises env (Child output_path (task_name @ ascii ''.txt'')) = None \<or>
          (\<exists>e left. write_raises env (Child output_path (task_name @ ascii ''.txt'')) =
             Some (Opened e left))))) \<and>
   invoked (dispatch env self output_path tasks submitted w) =
     invoked w @ map (\<lambda>item. volatility_path self # snd item) submitted"
proof -
  have t: "txt_file task_name = task_name @ ascii ''.txt''"
    by (simp add: txt_file_def)
  have "files (run_command env self command task_name output_path tasks w) \<noteq> files w \<longrightarrow>
      (\<exists>stdout out.
         subprocess_run env command True (Some (timeout self)) = Completed stdout \<and>
         decode_stdout stdout = Inr out \<and> out \<noteq> [] \<and>
         (write_raises env (Child output_path (task_name @ ascii ''.txt'')) = None \<or>
          (\<exists>e left. write_raises env (Child output_path (task_name @ ascii ''.txt'')) =
             Some (Opened e left))))"
    by (cases rule: run_command_cases[where env=env and command=command and self=self
          and p="Child output_path (txt_file task_name)"])
      (auto simp: run_command_raises run_command_empty run_command_not_opened
        decode_stdout_utf8 t)
  then show ?thesis
    by (auto simp: run_command_raises run_command_empty run_command_written
        run_command_not_opened run_command_opened
        decode_stdout_utf8 logged_task_failed invoked_dispatch t[symmetric])
qed

theorem run_command_persistence_witness:
  "files (run_command scenario_env example_self pslist_command (ascii ''pslist'') example_output two_tasks empty_world) =
     (files empty_world)(Child example_output (ascii ''pslist.txt'') \<mapsto> Text (ascii ''PID 1 init'')) \<and>
   files (run_command scenario_env example_self netscan_command (ascii ''netscan'') example_output two_tasks empty_world) = files empty_world \<and>
   logged (run_command scenario_env example_self netscan_command (ascii ''netscan'') example_output two_tasks empty_world) = [Task_timeout (ascii ''netscan'') 120] \<and>
   files (run_command full_disk_env example_self pslist_command (ascii ''pslist'') example_output two_tasks pslist_done) =
     (files pslist_done)(Child example_output (ascii ''pslist.txt'') \<mapsto> Text [])"
proof -
  have dec: "decode_stdout (ascii_bytes ''PID 1 init'') = Inr (ascii ''PID 1 init'')"
    by (simp add: decode_stdout_utf8 decode_pid)
  have ne: "ascii ''PID 1 init'' \<noteq> []"
    by (simp add: ascii_def)
  have wr: "write_raises scenario_env (Child example_output (ascii ''pslist'' @ ascii ''.txt'')) =
      None"
    by (simp add: scenario_env_def)
  have wf: "write_raises full_disk_env (Child example_output (ascii ''pslist'' @ ascii ''.txt'')) =
      Some (Opened (OSError (ascii ''No space left on device'')) (Text []))"
    by (simp add: full_disk_env_def)
  have os: "OSError (ascii ''No space left on device'') \<noteq> TimeoutExpired"
    by simp
  have tmo: "subprocess_run scenario_env netscan_command True (Some (timeout example_self)) =
      Raises TimeoutExpired"
    by (simp add: scenario_env_def netscan_command_def ascii_def)
  have t: "timeout example_self = 120" "logged empty_world = []"
    "write_newlines (linesep scenario_env) (ascii ''PID 1 init'') = ascii ''PID 1 init''"
    by (simp_all add: example_self_def empty_world_def scenario_env_def write_newlines_posix)
  from run_command_persistence [where env=scenario_env and self=example_self
          and command=pslist_command and task_name="ascii ''pslist''"
          and output_path=example_output and stdout="ascii_bytes ''PID 1 init''"
          and out="ascii ''PID 1 init''" and w=empty_world and tasks=two_tasks]
    run_scenario_pslist(1) dec ne wr
  have a: "files (run_command scenario_env example_self pslist_command (ascii ''pslist'') example_output two_tasks empty_world) =
     (files empty_world)(Child example_output (ascii ''pslist'' @ ascii ''.txt'') \<mapsto>
        Text (write_newlines (linesep scenario_env) (ascii ''PID 1 init'')))"
    by blast
  from run_command_persistence [where env=scenario_env and self=example_self
          and command=netscan_command and task_name="ascii ''netscan''"
          and output_path=example_output and w=empty_world and tasks=two_tasks]
    tmo
  have b: "files (run_command scenario_env example_self netscan_command (ascii ''netscan'') example_output two_tasks empty_world) = files empty_world \<and>
   logged (run_command scenario_env example_self netscan_command (ascii ''netscan'') example_output two_tasks empty_world) =
     logged empty_world @ [Task_timeout (ascii ''netscan'') (timeout example_self)]"
    by blast
  from run_command_persistence [where env=full_disk_env and self=example_self
          and command=pslist_command and task_name="ascii ''pslist''"
          and output_path=example_output and stdout="ascii_bytes ''PID 1 init''"
          and out="ascii ''PID 1 init''" and w=pslist_done and tasks=two_tasks
          and e="OSError (ascii ''No space left on device'')" and left="Text []"]
    run_scenario_pslist(2) dec ne wf os
  have c: "files (run_command full_disk_env example_self pslist_command (ascii ''pslist'') example_output two_tasks pslist_done) =
     (files pslist_done)(Child example_output (ascii ''pslist'' @ ascii ''.txt'') \<mapsto> Text [])"
    by blast
  from a b c show ?thesis by (simp add: t pslist_txt)
qed

section \<open>Output that is not UTF-8\<close>

text \<open>
  Claim C6, at an output of the single byte 0xFF. The decoder with \<open>errors="ignore"\<close> never
  raises, so the \<open>except UnicodeDecodeError\<close> clause with its ISO-8859-1 decoding is
  never entered: the byte is dropped, the decoded text is empty, and the task is recorded
  as one without output and writes no file. The ISO-8859-1 decoding of the same byte is
  the one character U+00FF.
\<close>

theorem invalid_utf8_output_is_dropped:
  "decode_stdout [0xFF] = Inr [] \<and>
   decode ISO_8859_1 Ignore [0xFF] = Inr [255] \<and>
   run_command invalid_utf8_env example_self pslist_command (ascii ''pslist'') example_output
     two_tasks empty_world =
     empty_world\<lparr>invoked := [pslist_command], logged := [Task_no_output (ascii ''pslist'')]\<rparr>"
proof -
  have d: "decode UTF_8 Ignore [0xFF] = Inr []"
    by (simp add: decode_def utf8_lead_def)
  have l: "decode ISO_8859_1 Ignore [0xFF] = Inr [255]"
    by (simp add: decode_def charmap_def)
  have r: "subprocess_run invalid_utf8_env pslist_command True (Some (timeout example_self)) =
      Completed [0xFF]"
    by (simp add: invalid_utf8_env_def)
  show ?thesis
    by (simp add: run_command_empty[OF r d] decode_stdout_utf8 d l notify_def empty_world_def)
qed

section \<open>Progress notifications\<close>



section \<open>The sections of the report\<close>

lemma help_text_of_filescan:
  "help_text_of [ascii ''filescan''] [ascii ''File scan'' @ [10]] task_filescanlist
     task_filescanlist_help (ascii ''filescan'') = Inl IndexError"
  by (simp add: help_text_of_def py_nth_def ascii_def)

lemma no_unreadable_filescan_done:
  "\<forall>e. files filescan_done p \<noteq> Some (Unreadable e)"
  by (simp add: filescan_done_def)

lemma filter_sections_filescan_done:
  "concat (map (section_of filescan_done example_output)
       (zip (map filescan_name task_filescanlist) task_filescanlist_help)) =
   [heading (ascii ''filescan(Desktop)'') [26700, 38754], no_data,
    heading (ascii ''filescan(Downloads)'') [19979, 36733], no_data,
    heading (ascii ''filescan(.zip)'') [21387, 32553, 21253], no_data,
    heading (ascii ''filescan(flag)'') (ascii ''flag''), no_data,
    heading (ascii ''filescan(evtx)'') [26085, 24535], no_data]"
  by (simp add: task_filescanlist_def task_filescanlist_help_def section_of_def
      filescan_name_def filescan_done_def empty_world_def example_output_def ascii_def)

text \<open>
  Claim C5, at the configuration line \<open>filescan-File scan\<close>. The task mapping has six
  keys, the configured \<open>filescan\<close> first, and the output of that task is persisted in
  \<open>output/filescan.txt\<close>. Its name contains \<open>filescan\<close>, so line 102 takes it for a filter
  task, \<open>split('(')[1]\<close> raises IndexError, and the task gets no section: the list
  \<open>markdown\<close> has the ten entries of the five filter tasks, and the heading of
  \<open>filescan\<close> is not among them.
\<close>

theorem catalog_filescan_has_no_section:
  "map fst filescan_tasks = ascii ''filescan'' # map filescan_name task_filescanlist \<and>
   length filescan_tasks = 6 \<and>
   files filescan_done (Child example_output (ascii ''filescan.txt'')) =
     Some (Text (ascii ''0x3e0 secret.txt'')) \<and>
   help_text_of [ascii ''filescan''] [ascii ''File scan'' @ [10]] task_filescanlist
     task_filescanlist_help (ascii ''filescan'') = Inl IndexError \<and>
   fst (markdown_of filescan_tasks example_output [ascii ''filescan'']
          [ascii ''File scan'' @ [10]] task_filescanlist task_filescanlist_help filescan_done) =
     [heading (ascii ''filescan(Desktop)'') [26700, 38754], no_data,
      heading (ascii ''filescan(Downloads)'') [19979, 36733], no_data,
      heading (ascii ''filescan(.zip)'') [21387, 32553, 21253], no_data,
      heading (ascii ''filescan(flag)'') (ascii ''flag''), no_data,
      heading (ascii ''filescan(evtx)'') [26085, 24535], no_data] \<and>
   heading (ascii ''filescan'') (ascii ''File scan'' @ [10]) \<notin>
     set (fst (markdown_of filescan_tasks example_output [ascii ''filescan'']
          [ascii ''File scan'' @ [10]] task_filescanlist task_filescanlist_help filescan_done))"
proof -
  have keys: "map fst filescan_tasks = ascii ''filescan'' # map filescan_name task_filescanlist"
    by (simp add: filescan_tasks_def build_tasks_def task_filescanlist_def filescan_name_def
        ascii_def)
  have r: "\<forall>n\<in>set (map filescan_name task_filescanlist).
             \<forall>e. files filescan_done (Child example_output (txt_file n)) \<noteq> Some (Unreadable e)"
    using no_unreadable_filescan_done by blast
  have "fst (markdown_of filescan_tasks example_output [ascii ''filescan'']
          [ascii ''File scan'' @ [10]] task_filescanlist task_filescanlist_help filescan_done) =
     concat (map (section_of filescan_done example_output)
       (zip (map filescan_name task_filescanlist) task_filescanlist_help))"
    using markdown_of_sections[of filescan_tasks example_output "[ascii ''filescan'']"
        "[ascii ''File scan'' @ [10]]" task_filescanlist task_filescanlist_help filescan_done]
    by (simp only: keys list.map concat.simps filter_sections[OF r]
        report_task_unresolved[OF help_text_of_filescan] fst_conv append_Nil)
  then have md: "fst (markdown_of filescan_tasks example_output [ascii ''filescan'']
          [ascii ''File scan'' @ [10]] task_filescanlist task_filescanlist_help filescan_done) =
     [heading (ascii ''filescan(Desktop)'') [26700, 38754], no_data,
      heading (ascii ''filescan(Downloads)'') [19979, 36733], no_data,
      heading (ascii ''filescan(.zip)'') [21387, 32553, 21253], no_data,
      heading (ascii ''filescan(flag)'') (ascii ''flag''), no_data,
      heading (ascii ''filescan(evtx)'') [26085, 24535], no_data]"
    by (simp only: filter_sections_filescan_done)
  have len: "length filescan_tasks = 6"
    using arg_cong[OF keys, of length] by (simp add: length_filescanlists)
  have f: "files filescan_done (Child example_output (ascii ''filescan.txt'')) =
     Some (Text (ascii ''0x3e0 secret.txt''))"
    by (simp add: filescan_done_def)
  have absent: "heading (ascii ''filescan'') (ascii ''File scan'' @ [10]) \<notin>
     set (fst (markdown_of filescan_tasks example_output [ascii ''filescan'']
          [ascii ''File scan'' @ [10]] task_filescanlist task_filescanlist_help filescan_done))"
    unfolding md by (simp add: heading_def no_data_def ascii_def)
  from keys len f help_text_of_filescan md absent show ?thesis by simp
qed

text \<open>
  For a configuration of different names none of which contains \<open>filescan\<close>, and
  without an unreadable file, the report is as the claim says: the keys of the task
  mapping are the configured names in their order followed by the filter tasks in the
  order of the filter list, and \<open>markdown\<close> is one section per key in that order,
  whatever the files of the world are.
\<close>

lemma sections_of_plain_catalog:
  assumes "distinct tasklist" and "\<forall>n\<in>set tasklist. \<not> py_in (ascii ''filescan'') n"
    and "length tasklist_help = length tasklist"
    and "\<forall>n\<in>set (tasklist @ map filescan_name task_filescanlist).
           \<forall>e. files w (Child output_path (txt_file n)) \<noteq> Some (Unreadable e)"
  shows "map fst (build_tasks profile memorydump_path tasklist) =
           tasklist @ map filescan_name task_filescanlist \<and>
         fst (markdown_of (build_tasks profile memorydump_path tasklist) output_path tasklist
                tasklist_help task_filescanlist task_filescanlist_help w) =
           concat (map (section_of w output_path)
             (zip tasklist tasklist_help @
              zip (map filescan_name task_filescanlist) task_filescanlist_help)) \<and>
         (write_raises env (Child output_path (ascii ''summary.md'')) = None \<longrightarrow>
            files (generate_markdown env (build_tasks profile memorydump_path tasklist)
                     output_path tasklist tasklist_help task_filescanlist task_filescanlist_help
                     w)
              (Child output_path (ascii ''summary.md'')) =
            Some (Text (write_newlines (linesep env) (py_join [10]
              (concat (map (section_of w output_path)
                 (zip tasklist tasklist_help @
                  zip (map filescan_name task_filescanlist) task_filescanlist_help)))))))"
proof -
  have keys: "map fst (build_tasks profile memorydump_path tasklist) =
           tasklist @ map filescan_name task_filescanlist"
    by (rule keys_build_tasks[OF assms(1) assms(2)])
  have r1: "\<forall>n\<in>set tasklist. \<forall>e. files w (Child output_path (txt_file n)) \<noteq> Some (Unreadable e)"
    and r2: "\<forall>n\<in>set (map filescan_name task_filescanlist).
             \<forall>e. files w (Child output_path (txt_file n)) \<noteq> Some (Unreadable e)"
    using assms(4) by auto
  have md: "fst (markdown_of (build_tasks profile memorydump_path tasklist) output_path tasklist
                tasklist_help task_filescanlist task_filescanlist_help w) =
           concat (map (section_of w output_path)
             (zip tasklist tasklist_help @
              zip (map filescan_name task_filescanlist) task_filescanlist_help))"
    using markdown_of_sections[of "build_tasks profile memorydump_path tasklist" output_path
        tasklist tasklist_help task_filescanlist task_filescanlist_help w]
    by (simp only: keys map_append concat_append
        catalog_sections[OF assms(1) assms(2) assms(3) r1] filter_sections[OF r2])
  show ?thesis
    by (simp add: keys generate_markdown_written md del: map_append)
qed

section \<open>Failures while the report is assembled\<close>

lemma help_text_of_two_names:
  "help_text_of two_names two_helps task_filescanlist task_filescanlist_help (ascii ''pslist'') =
     Inr (ascii ''Process list'' @ [10])"
  "help_text_of two_names two_helps task_filescanlist task_filescanlist_help (ascii ''netscan'') =
     Inr (ascii ''Network scan'' @ [10])"
  by (simp_all add: help_text_of_def two_names_def two_helps_def py_nth_def ascii_def)

lemma files_unreadable_world:
  "files unreadable_world (Child example_output (txt_file (ascii ''pslist''))) =
     Some (Unreadable UnicodeDecodeError)"
  "files unreadable_world (Child example_output (txt_file (ascii ''netscan''))) = None"
  by (simp_all add: unreadable_world_def txt_file_def ascii_def)

lemma markdown_unreadable_world:
  "fst (markdown_of two_tasks example_output two_names two_helps task_filescanlist
          task_filescanlist_help unreadable_world) =
     [heading (ascii ''pslist'') (ascii ''Process list'' @ [10]),
      heading (ascii ''netscan'') (ascii ''Network scan'' @ [10]), no_data]"
  using markdown_of_sections[of two_tasks example_output two_names two_helps task_filescanlist
      task_filescanlist_help unreadable_world]
  by (simp add: two_tasks_def
      report_task_unreadable[OF help_text_of_two_names(1) files_unreadable_world(1)]
      report_task_missing[OF help_text_of_two_names(2) files_unreadable_world(2)])

text \<open>
  Claim C8, at a file that cannot be read: \<open>output/pslist.txt\<close> exists and is not
  UTF-8. The heading of the task is appended to \<open>markdown\<close> at line 110, before the file
  is read at line 114, so when \<open>read_text\<close> raises, the error is logged but the section
  is not omitted: the heading of \<open>pslist\<close> stays in the report, with neither the fenced
  text nor the placeholder after it, and the heading of \<open>netscan\<close> follows it directly.
  The report file is written with these entries.
\<close>

theorem unreadable_file_keeps_heading:
  "files unreadable_world (Child example_output (ascii ''pslist.txt'')) =
     Some (Unreadable UnicodeDecodeError) \<and>
   report_task two_names two_helps task_filescanlist task_filescanlist_help example_output
     (ascii ''pslist'') ([], unreadable_world) =
     ([heading (ascii ''pslist'') (ascii ''Process list'' @ [10])],
      unreadable_world\<lparr>logged := [Report_task_error (ascii ''pslist'') UnicodeDecodeError]\<rparr>) \<and>
   fst (markdown_of two_tasks example_output two_names two_helps task_filescanlist
          task_filescanlist_help unreadable_world) =
     [heading (ascii ''pslist'') (ascii ''Process list'' @ [10]),
      heading (ascii ''netscan'') (ascii ''Network scan'' @ [10]), no_data] \<and>
   files (generate_markdown scenario_env two_tasks example_output two_names two_helps
            task_filescanlist task_filescanlist_help unreadable_world)
     (Child example_output (ascii ''summary.md'')) =
     Some (Text (py_join [10]
       [heading (ascii ''pslist'') (ascii ''Process list'' @ [10]),
        heading (ascii ''netscan'') (ascii ''Network scan'' @ [10]), no_data]))"
proof -
  have f: "files unreadable_world (Child example_output (ascii ''pslist.txt'')) =
     Some (Unreadable UnicodeDecodeError)"
    by (simp add: unreadable_world_def)
  have l: "logged unreadable_world = []"
    by (simp add: unreadable_world_def empty_world_def)
  have rt: "report_task two_names two_helps task_filescanlist task_filescanlist_help example_output
     (ascii ''pslist'') ([], unreadable_world) =
     ([heading (ascii ''pslist'') (ascii ''Process list'' @ [10])],
      unreadable_world\<lparr>logged := [Report_task_error (ascii ''pslist'') UnicodeDecodeError]\<rparr>)"
    by (simp add: report_task_unreadable[OF help_text_of_two_names(1) files_unreadable_world(1)]
        l)
  have wr: "write_raises scenario_env (Child example_output (ascii ''summary.md'')) = None"
    "linesep scenario_env = [10]"
    by (simp_all add: scenario_env_def)
  have s: "files (generate_markdown scenario_env two_tasks example_output two_names two_helps
            task_filescanlist task_filescanlist_help unreadable_world)
     (Child example_output (ascii ''summary.md'')) =
     Some (Text (py_join [10]
       [heading (ascii ''pslist'') (ascii ''Process list'' @ [10]),
        heading (ascii ''netscan'') (ascii ''Network scan'' @ [10]), no_data]))"
    by (simp add: generate_markdown_written[OF wr(1)] wr(2) write_newlines_posix
        markdown_unreadable_world)
  from f rt markdown_unreadable_world s show ?thesis by simp
qed

text \<open>
  In general: when the look-up of the help text of a task raises, the error is logged and
  the task adds nothing to the report; when the read of its file raises, the error is
  logged and the task adds its heading only. In both cases the other tasks are not
  affected: the list \<open>markdown\<close> is the concatenation of what each task adds on its own,
  and the report file is written with it when its write does not raise.
\<close>

lemma report_failure_containment:
  "(help_text_of tasklist tasklist_help fl flh task_name = Inl e \<longrightarrow>
      report_task tasklist tasklist_help fl flh output_path task_name (markdown, w) =
        (markdown, w\<lparr>logged := logged w @ [Report_task_error task_name e]\<rparr>)) \<and>
   (help_text_of tasklist tasklist_help fl flh task_name = Inr help_text \<and>
    files w (Child output_path (txt_file task_name)) = Some (Unreadable e) \<longrightarrow>
      report_task tasklist tasklist_help fl flh output_path task_name (markdown, w) =
        (markdown @ [heading task_name help_text],
         w\<lparr>logged := logged w @ [Report_task_error task_name e]\<rparr>)) \<and>
   fst (markdown_of tasks output_path tasklist tasklist_help fl flh w) =
     concat (map (\<lambda>n. fst (report_task tasklist tasklist_help fl flh output_path n ([], w)))
               (map fst tasks)) \<and>
   (write_raises env (Child output_path (ascii ''summary.md'')) = None \<longrightarrow>
      files (generate_markdown env tasks output_path tasklist tasklist_help fl flh w)
        (Child output_path (ascii ''summary.md'')) =
      Some (Text (write_newlines (linesep env) (py_join [10]
        (fst (markdown_of tasks output_path tasklist tasklist_help fl flh w))))))"
  using markdown_of_sections[of tasks output_path tasklist tasklist_help fl flh w]
  by (simp add: report_task_unresolved report_task_unreadable generate_markdown_written)

section \<open>A second run\<close>

lemma read_config_scenario: "read_config scenario_env = Inr (two_names, two_helps)"
  by (simp add: read_config_def scenario_env_def two_names_def two_helps_def)
    (simp add: ascii_def py_nth_def)

lemma scenario_run_eq:
  "scenario_run w =
     Inr (generate_markdown scenario_env scenario_tasks example_output two_names two_helps
            task_filescanlist task_filescanlist_help
            (dispatch scenario_env example_self example_output scenario_tasks scenario_tasks
               (w\<lparr>progress_manager :=
                    Some (ProgressManager_init (length two_names + length task_filescanlist))\<rparr>)))"
  unfolding scenario_run_def scenario_tasks_def example_output_def
  by (rule analyze_with_profile)
    (simp_all add: scenario_env_def[THEN arg_cong, of mkdir_raises] read_config_scenario
      scenario_profile_def ascii_def)


lemma exists_run_command:
  "path_exists w p \<Longrightarrow> path_exists (run_command env self command task_name output_path tasks w) p"
  by (cases rule: run_command_cases[where env=env and command=command and self=self
        and p="Child output_path (txt_file task_name)"])
    (auto simp: run_command_raises run_command_empty run_command_written
      run_command_not_opened run_command_opened path_exists_def)

lemma exists_dispatch:
  "path_exists w p \<Longrightarrow> path_exists (dispatch env self output_path tasks submitted w) p"
  unfolding dispatch_def
  by (induction submitted arbitrary: w) (simp_all add: exists_run_command)

lemma exists_generate_markdown:
  "path_exists w p \<Longrightarrow>
   path_exists (generate_markdown env tasks output_path tasklist tasklist_help fl flh w) p"
proof -
  assume a: "path_exists w p"
  obtain md w1 where m: "markdown_of tasks output_path tasklist tasklist_help fl flh w = (md, w1)"
    by (cases "markdown_of tasks output_path tasklist tasklist_help fl flh w")
  have "files w1 = files w"
    using markdown_of_sections[of tasks output_path tasklist tasklist_help fl flh w]
    by (simp add: m)
  with a show ?thesis
    by (auto simp: generate_markdown_def m write_text_def path_exists_def
        split: option.splits write_failure.splits)
qed

lemma scenario_tasks_eq:
  "scenario_tasks =
     (ascii ''pslist'', tl pslist_command) # (ascii ''netscan'', tl netscan_command) #
     map (\<lambda>t. (filescan_name t,
                 [ascii ''--profile=Win10x64_19041'', ascii ''-f'', example_dump,
                  ascii ''filescan'', ascii ''|'', ascii ''findstr'', t]))
       task_filescanlist"
  by (simp add: scenario_tasks_def build_tasks_def two_names_def task_filescanlist_def
      filescan_name_def scenario_profile_def pslist_command_def netscan_command_def ascii_def)

lemma pslist_written:
  "path_exists
     (run_command scenario_env example_self pslist_command (ascii ''pslist'') example_output
        tasks w)
     (Child example_output (ascii ''pslist.txt''))"
proof -
  have run: "subprocess_run scenario_env pslist_command True (Some (timeout example_self)) =
      Completed (ascii_bytes ''PID 1 init'')"
    by (simp add: scenario_env_def pslist_command_def)
  have ne: "ascii ''PID 1 init'' \<noteq> []"
    by (simp add: ascii_def)
  have wr: "write_raises scenario_env (Child example_output (txt_file (ascii ''pslist''))) = None"
    by (simp add: scenario_env_def)
  have t: "txt_file (ascii ''pslist'') = ascii ''pslist.txt''"
    by (simp add: txt_file_def ascii_def)
  show ?thesis
    by (simp add: run_command_written[OF run decode_pid ne wr] path_exists_def t)
qed

lemma dispatch_Cons:
  "dispatch env self output_path tasks (item # submitted) w =
     dispatch env self output_path tasks submitted
       (run_command env self (volatility_path self # snd item) (fst item) output_path tasks w)"
  by (simp add: dispatch_def)

lemma pslist_persisted: "path_exists (after_run w) (Child example_output (ascii ''pslist.txt''))"
proof -
  have c: "volatility_path example_self # tl pslist_command = pslist_command"
    by (simp add: example_self_def pslist_command_def)
  obtain rest where r: "scenario_tasks = (ascii ''pslist'', tl pslist_command) # rest"
    using scenario_tasks_eq by blast
  have "path_exists
      (dispatch scenario_env example_self example_output scenario_tasks
         ((ascii ''pslist'', tl pslist_command) # rest)
         (w\<lparr>progress_manager :=
              Some (ProgressManager_init (length two_names + length task_filescanlist))\<rparr>))
      (Child example_output (ascii ''pslist.txt''))"
    unfolding dispatch_Cons
    by (rule exists_dispatch) (simp add: c pslist_written)
  then have "path_exists
      (dispatch scenario_env example_self example_output scenario_tasks scenario_tasks
         (w\<lparr>progress_manager :=
              Some (ProgressManager_init (length two_names + length task_filescanlist))\<rparr>))
      (Child example_output (ascii ''pslist.txt''))"
    using r by simp
  then show ?thesis
    unfolding after_run_def scenario_run_eq
    by (simp add: exists_generate_markdown)
qed

text \<open>
  Claim C1, at the scenario of the specification run twice. The first run leaves
  \<open>output/pslist.txt\<close> behind, and \<open>get_remaining_tasks\<close> on the world after it does
  not list \<open>pslist\<close>. But \<open>analyze_memory_dump\<close> never calls \<open>get_remaining_tasks\<close>: it
  submits every item of \<open>tasks\<close>, so the second run invokes all seven commands again,
  the one of \<open>pslist\<close> first.
\<close>

theorem second_run_reinvokes_pslist:
  "scenario_run empty_world = Inr (after_run empty_world) \<and>
   path_exists (after_run empty_world) (Child example_output (ascii ''pslist.txt'')) \<and>
   ascii ''pslist'' \<notin>
     set (get_remaining_tasks (after_run empty_world) example_output scenario_tasks) \<and>
   scenario_run (after_run empty_world) = Inr (after_run (after_run empty_world)) \<and>
   invoked (after_run (after_run empty_world)) =
     invoked (after_run empty_world) @
     map (\<lambda>item. ascii ''vol.exe'' # snd item) scenario_tasks \<and>
   map (\<lambda>item. ascii ''vol.exe'' # snd item) scenario_tasks ! 0 = pslist_command"
proof -
  have run: "\<And>w. scenario_run w = Inr (after_run w)"
    by (simp add: after_run_def scenario_run_eq)
  have t: "txt_file (ascii ''pslist'') = ascii ''pslist.txt''"
    by (simp add: txt_file_def ascii_def)
  have rem: "ascii ''pslist'' \<notin>
     set (get_remaining_tasks (after_run empty_world) example_output scenario_tasks)"
    using pslist_persisted[of empty_world]
    by (auto simp: get_remaining_tasks_def t)
  have inv: "\<And>w. invoked (after_run w) =
     invoked w @ map (\<lambda>item. ascii ''vol.exe'' # snd item) scenario_tasks"
    unfolding after_run_def scenario_run_eq
    by (simp add: invoked_generate_markdown invoked_dispatch example_self_def)
  have hd: "map (\<lambda>item. ascii ''vol.exe'' # snd item) scenario_tasks ! 0 = pslist_command"
    by (simp add: scenario_tasks_eq pslist_command_def)
  show ?thesis
    using run rem inv hd pslist_persisted by simp
qed

section \<open>A run without a profile\<close>

lemma read_config_pslist:
  "read_config (cfg_env pslist_cfg) = Inr ([ascii ''pslist''], [ascii ''Process list'' @ [10]])"
  by (simp add: read_config_def cfg_env_def pslist_cfg_def)
    (simp add: ascii_def py_nth_def)

lemma no_marker_run_eq:
  "no_marker_run =
     Inr (generate_markdown (cfg_env pslist_cfg) (build_tasks None example_dump [ascii ''pslist''])
            example_output [ascii ''pslist''] [ascii ''Process list'' @ [10]]
            task_filescanlist task_filescanlist_help
            (dispatch (cfg_env pslist_cfg) example_self example_output
               (build_tasks None example_dump [ascii ''pslist''])
               (build_tasks None example_dump [ascii ''pslist''])
               (empty_world\<lparr>invoked := invoked empty_world @ [imageinfo_command],
                  progress_manager :=
                    Some (ProgressManager_init
                            (length [ascii ''pslist''] + length task_filescanlist))\<rparr>)))"
proof -
  have c: "[volatility_path example_self, ascii ''-f'', example_dump, ascii ''imageinfo''] =
      imageinfo_command"
    by (simp add: imageinfo_command_def example_self_def)
  have m: "mkdir_raises (cfg_env pslist_cfg) (Child (Dirname example_dump) (ascii ''output'')) =
      None"
    by (simp add: cfg_env_def)
  have t: "\<not> truthy None" by simp
  have r: "subprocess_run (cfg_env pslist_cfg)
           [volatility_path example_self, ascii ''-f'', example_dump, ascii ''imageinfo'']
           False None = Completed []"
    by (simp add: cfg_env_def)
  have d: "decode CP1252 Ignore [] = Inr []"
    by (simp add: decode_def)
  have f: "find_profile (py_split 10 []) None = Inr None"
    by (simp add: ascii_def)
  show ?thesis
    unfolding no_marker_run_def
    by (simp only: analyze_detected[OF m t r d f read_config_pslist] c example_output_def)
qed

text \<open>
  Claim C2, at a run without a profile in which the output of \<open>imageinfo\<close> is empty.
  No line has the marker, the loop ends without an exception, and the profile is still
  \<open>None\<close>. The run does not stop: it reads the configuration, builds the six tasks with
  the argument \<open>--profile=None\<close>, invokes all of them after \<open>imageinfo\<close>, and writes
  the report. Only an exception inside the \<open>try\<close> block makes the run return.
\<close>

theorem no_marker_run_dispatches:
  "find_profile (py_split 10 []) None = Inr None \<and>
   (\<exists>w. no_marker_run = Inr w \<and>
      invoked w =
        imageinfo_command #
        map (\<lambda>item. ascii ''vol.exe'' # snd item)
          (build_tasks None example_dump [ascii ''pslist'']) \<and>
      path_exists w (Child example_output (ascii ''summary.md''))) \<and>
   map (\<lambda>item. ascii ''vol.exe'' # snd item)
     (build_tasks None example_dump [ascii ''pslist'']) ! 0 =
     [ascii ''vol.exe'', ascii ''--profile=None'', ascii ''-f'', example_dump, ascii ''pslist''] \<and>
   length (build_tasks None example_dump [ascii ''pslist'']) = 6"
proof -
  have f: "find_profile (py_split 10 []) None = Inr None"
    by (simp add: ascii_def)
  have wr: "write_raises (cfg_env pslist_cfg) (Child example_output (ascii ''summary.md'')) = None"
    by (simp add: cfg_env_def)
  have inv: "invoked (generate_markdown (cfg_env pslist_cfg)
            (build_tasks None example_dump [ascii ''pslist''])
            example_output [ascii ''pslist''] [ascii ''Process list'' @ [10]]
            task_filescanlist task_filescanlist_help
            (dispatch (cfg_env pslist_cfg) example_self example_output
               (build_tasks None example_dump [ascii ''pslist''])
               (build_tasks None example_dump [ascii ''pslist''])
               (empty_world\<lparr>invoked := invoked empty_world @ [imageinfo_command],
                  progress_manager :=
                    Some (ProgressManager_init
                            (length [ascii ''pslist''] + length task_filescanlist))\<rparr>))) =
        imageinfo_command #
        map (\<lambda>item. ascii ''vol.exe'' # snd item)
          (build_tasks None example_dump [ascii ''pslist''])"
    by (simp add: invoked_generate_markdown invoked_dispatch empty_world_def example_self_def)
  have ex: "path_exists (generate_markdown (cfg_env pslist_cfg)
            (build_tasks None example_dump [ascii ''pslist''])
            example_output [ascii ''pslist''] [ascii ''Process list'' @ [10]]
            task_filescanlist task_filescanlist_help
            (dispatch (cfg_env pslist_cfg) example_self example_output
               (build_tasks None example_dump [ascii ''pslist''])
               (build_tasks None example_dump [ascii ''pslist''])
               (empty_world\<lparr>invoked := invoked empty_world @ [imageinfo_command],
                  progress_manager :=
                    Some (ProgressManager_init
                            (length [ascii ''pslist''] + length task_filescanlist))\<rparr>)))
         (Child example_output (ascii ''summary.md''))"
    by (simp add: path_exists_def generate_markdown_written[OF wr])
  have tasks: "build_tasks None example_dump [ascii ''pslist''] =
     (ascii ''pslist'', [ascii ''--profile=None'', ascii ''-f'', example_dump, ascii ''pslist'']) #
     map (\<lambda>t. (filescan_name t,
                 [ascii ''--profile=None'', ascii ''-f'', example_dump,
                  ascii ''filescan'', ascii ''|'', ascii ''findstr'', t]))
       task_filescanlist"
    by (simp add: build_tasks_def task_filescanlist_def filescan_name_def ascii_def)
  have hd: "map (\<lambda>item. ascii ''vol.exe'' # snd item)
     (build_tasks None example_dump [ascii ''pslist'']) ! 0 =
     [ascii ''vol.exe'', ascii ''--profile=None'', ascii ''-f'', example_dump, ascii ''pslist'']"
    by (simp add: tasks)
  have len: "length (build_tasks None example_dump [ascii ''pslist'']) = 6"
    by (simp add: tasks task_filescanlist_def)
  from no_marker_run_eq inv ex f hd len show ?thesis by blast
qed

section \<open>The exit status\<close>

lemma analyze_no_cfg:
  "analyze_memory_dump no_cfg_env example_self example_dump (Some scenario_profile) False None
     empty_world =
   Inr (empty_world\<lparr>logged :=
          [Config_error (OSError (ascii ''No such file or directory''))]\<rparr>)"
  by (simp add: analyze_memory_dump_def Let_def no_cfg_env_def read_config_def empty_world_def
      scenario_profile_def ascii_def)

lemma main_no_cfg:
  "main no_cfg_env example_args empty_world =
     (0, empty_world\<lparr>logged :=
           [Config_error (OSError (ascii ''No such file or directory''))]\<rparr>)"
proof -
  have a: "\<lparr>volatility_path = arg_volatility_path example_args,
            timeout = arg_timeout example_args\<rparr> = example_self"
    by (simp add: example_args_def example_self_def)
  show ?thesis
    unfolding main_def Let_def a
    by (simp add: example_args_def analyze_no_cfg)
qed

text \<open>
  Claim C3 as stated fails in its exit status. When \<open>tasklist.cfg\<close> cannot be opened,
  \<open>analyze_memory_dump\<close> catches the exception, logs it and returns; \<open>main\<close> then
  returns as well, and the process ends with status 0.
\<close>

theorem unreadable_config_exits_zero:
  "tasklist_cfg no_cfg_env = Inl (OSError (ascii ''No such file or directory'')) \<and>
   main no_cfg_env example_args empty_world =
     (0, empty_world\<lparr>logged :=
           [Config_error (OSError (ascii ''No such file or directory''))]\<rparr>)"
  by (simp add: main_no_cfg) (simp add: no_cfg_env_def)

text \<open>
  Claim C3, amended. When the configuration cannot be read, or one of its lines has no
  \<open>-\<close>, no run dispatches a task: no file is written, no progress manager is created,
  and nothing is invoked but the \<open>imageinfo\<close> command of the profile detection or the
  command of a file export. When the run reaches the configuration, that is, the output
  directory was made, the run is no file export, and the profile was given or was
  detected without an exception, then the error is logged, \<open>analyze_memory_dump\<close> returns
  and the process ends with status 0. The status is 1 exactly when \<open>mkdir\<close> of the
  output directory raises, the one exception that leaves \<open>analyze_memory_dump\<close>; so
  neither the configuration nor the outcome of a task has a part in it.
\<close>

theorem config_failure_aborts:
  "((tasklist_cfg env = Inl e \<or>
     e = IndexError \<and> tasklist_cfg env = Inr cfg \<and> l \<in> set (readlines cfg) \<and> 45 \<notin> set l) \<and>
    mkdir_raises env (Child (Dirname (arg_memorydump_path a)) (ascii ''output'')) = None \<and>
    truthy (arg_profile a) \<and> \<not> (arg_dumpfiles a \<and> truthy (arg_dumpfiles_location a)) \<longrightarrow>
      main env a w = (0, w\<lparr>logged := logged w @ [Config_error e]\<rparr>)) \<and>
   ((tasklist_cfg env = Inl e \<or>
     e = IndexError \<and> tasklist_cfg env = Inr cfg \<and> l \<in> set (readlines cfg) \<and> 45 \<notin> set l) \<and>
    mkdir_raises env (Child (Dirname (arg_memorydump_path a)) (ascii ''output'')) = None \<and>
    \<not> truthy (arg_profile a) \<and>
    subprocess_run env [arg_volatility_path a, ascii ''-f'', arg_memorydump_path a, ascii ''imageinfo''] False None = Completed stdout \<and>
    decode CP1252 Ignore stdout = Inr decoded \<and>
    find_profile (py_split 10 decoded) (arg_profile a) = Inr profile1 \<longrightarrow>
      main env a w =
        (0, w\<lparr>invoked := invoked w @ [[arg_volatility_path a, ascii ''-f'', arg_memorydump_path a, ascii ''imageinfo'']],
              logged := logged w @ [Config_error e]\<rparr>)) \<and>
   ((tasklist_cfg env = Inl e \<or>
     e = IndexError \<and> tasklist_cfg env = Inr cfg \<and> l \<in> set (readlines cfg) \<and> 45 \<notin> set l) \<longrightarrow>
      files (snd (main env a w)) = files w \<and>
      progress_manager (snd (main env a w)) = progress_manager w \<and>
      (invoked (snd (main env a w)) = invoked w \<or>
       invoked (snd (main env a w)) = invoked w @ [[arg_volatility_path a, ascii ''-f'', arg_memorydump_path a, ascii ''imageinfo'']] \<or>
       invoked (snd (main env a w)) =
         invoked w @
           [[arg_volatility_path a, ascii ''-f'', arg_memorydump_path a,
               ascii ''--profile='' @ py_format (arg_profile a), ascii ''dumpfiles'', ascii ''-Q'',
               py_format (arg_dumpfiles_location a), ascii ''-D'', ascii ''./'']])) \<and>
   fst (main env a w) =
     (if mkdir_raises env (Child (Dirname (arg_memorydump_path a)) (ascii ''output'')) = None
      then 0 else 1)"
proof -
  have rc: "read_config env = Inl e"
    if "tasklist_cfg env = Inl e \<or>
     e = IndexError \<and> tasklist_cfg env = Inr cfg \<and> l \<in> set (readlines cfg) \<and> 45 \<notin> set l"
    using that read_config_unreadable read_config_malformed by blast
  have status: "fst (main env a w) =
     (if mkdir_raises env (Child (Dirname (arg_memorydump_path a)) (ascii ''output'')) = None
      then 0 else 1)"
    using analyze_raises_iff[of env "\<lparr>volatility_path = arg_volatility_path a, timeout = arg_timeout a\<rparr>" "arg_memorydump_path a" "arg_profile a"
        "arg_dumpfiles a" "arg_dumpfiles_location a" w]
    by (auto simp: main_def Let_def split: sum.splits)
  have given: "((tasklist_cfg env = Inl e \<or>
     e = IndexError \<and> tasklist_cfg env = Inr cfg \<and> l \<in> set (readlines cfg) \<and> 45 \<notin> set l) \<and>
    mkdir_raises env (Child (Dirname (arg_memorydump_path a)) (ascii ''output'')) = None \<and>
    truthy (arg_profile a) \<and> \<not> (arg_dumpfiles a \<and> truthy (arg_dumpfiles_location a)) \<longrightarrow>
      main env a w = (0, w\<lparr>logged := logged w @ [Config_error e]\<rparr>))"
    using rc by (auto simp: main_def Let_def analyze_config_error_given)
  have detected: "((tasklist_cfg env = Inl e \<or>
     e = IndexError \<and> tasklist_cfg env = Inr cfg \<and> l \<in> set (readlines cfg) \<and> 45 \<notin> set l) \<and>
    mkdir_raises env (Child (Dirname (arg_memorydump_path a)) (ascii ''output'')) = None \<and>
    \<not> truthy (arg_profile a) \<and>
    subprocess_run env [arg_volatility_path a, ascii ''-f'', arg_memorydump_path a, ascii ''imageinfo''] False None = Completed stdout \<and>
    decode CP1252 Ignore stdout = Inr decoded \<and>
    find_profile (py_split 10 decoded) (arg_profile a) = Inr profile1 \<longrightarrow>
      main env a w =
        (0, w\<lparr>invoked := invoked w @ [[arg_volatility_path a, ascii ''-f'', arg_memorydump_path a, ascii ''imageinfo'']],
              logged := logged w @ [Config_error e]\<rparr>))"
    using rc
    by (auto simp: main_def Let_def
        analyze_config_error_detected[where self="\<lparr>volatility_path = arg_volatility_path a, timeout = arg_timeout a\<rparr>", simplified])
  have untouched: "files (snd (main env a w)) = files w \<and>
      progress_manager (snd (main env a w)) = progress_manager w \<and>
      (invoked (snd (main env a w)) = invoked w \<or>
       invoked (snd (main env a w)) = invoked w @ [[arg_volatility_path a, ascii ''-f'', arg_memorydump_path a, ascii ''imageinfo'']] \<or>
       invoked (snd (main env a w)) =
         invoked w @
           [[arg_volatility_path a, ascii ''-f'', arg_memorydump_path a,
               ascii ''--profile='' @ py_format (arg_profile a), ascii ''dumpfiles'', ascii ''-Q'',
               py_format (arg_dumpfiles_location a), ascii ''-D'', ascii ''./'']])"
    if r: "read_config env = Inl e"
  proof (cases "mkdir_raises env (Child (Dirname (arg_memorydump_path a)) (ascii ''output'')) = None")
    case False
    then show ?thesis
      by (auto simp: main_def Let_def analyze_memory_dump_def)
  next
    case mk: True
    show ?thesis
    proof (cases "arg_dumpfiles a \<and> truthy (arg_profile a) \<and> truthy (arg_dumpfiles_location a)")
      case True
      then show ?thesis
        using mk dump_files_effect[of env "\<lparr>volatility_path = arg_volatility_path a, timeout = arg_timeout a\<rparr>" "arg_memorydump_path a"
            "py_format (arg_profile a)" "py_format (arg_dumpfiles_location a)" w]
        by (simp add: main_def Let_def analyze_memory_dump_def)
    next
      case False
      from analyze_config_error[OF r mk False, of "\<lparr>volatility_path = arg_volatility_path a, timeout = arg_timeout a\<rparr>" w]
      show ?thesis
        by (auto simp: main_def Let_def)
    qed
  qed
  from untouched rc have nodispatch: "((tasklist_cfg env = Inl e \<or>
     e = IndexError \<and> tasklist_cfg env = Inr cfg \<and> l \<in> set (readlines cfg) \<and> 45 \<notin> set l) \<longrightarrow>
      files (snd (main env a w)) = files w \<and>
      progress_manager (snd (main env a w)) = progress_manager w \<and>
      (invoked (snd (main env a w)) = invoked w \<or>
       invoked (snd (main env a w)) = invoked w @ [[arg_volatility_path a, ascii ''-f'', arg_memorydump_path a, ascii ''imageinfo'']] \<or>
       invoked (snd (main env a w)) =
         invoked w @
           [[arg_volatility_path a, ascii ''-f'', arg_memorydump_path a,
               ascii ''--profile='' @ py_format (arg_profile a), ascii ''dumpfiles'', ascii ''-Q'',
               py_format (arg_dumpfiles_location a), ascii ''-D'', ascii ''./'']]))"
    by blast
  show ?thesis
    by (intro conjI status given detected nodispatch)
qed

theorem config_failure_aborts_witness:
  "main no_cfg_env example_args empty_world =
     (0, empty_world\<lparr>logged :=
           logged empty_world @
           [Config_error (OSError (ascii ''No such file or directory''))]\<rparr>) \<and>
   main (cfg_env (ascii ''pslist'' @ [10])) example_args empty_world =
     (0, empty_world\<lparr>logged := logged empty_world @ [Config_error IndexError]\<rparr>)"
proof -
  have c: "tasklist_cfg no_cfg_env = Inl (OSError (ascii ''No such file or directory''))"
    by (simp add: no_cfg_env_def)
  have m: "mkdir_raises no_cfg_env
      (Child (Dirname (arg_memorydump_path example_args)) (ascii ''output'')) = None"
    by (simp add: no_cfg_env_def)
  have p: "truthy (arg_profile example_args)"
    by (simp add: example_args_def scenario_profile_def ascii_def)
  have d: "\<not> (arg_dumpfiles example_args \<and> truthy (arg_dumpfiles_location example_args))"
    by (simp add: example_args_def)
  from config_failure_aborts [where env=no_cfg_env and a=example_args and w=empty_world
      and e="OSError (ascii ''No such file or directory'')"] c m p d
  have a: "main no_cfg_env example_args empty_world =
     (0, empty_world\<lparr>logged :=
           logged empty_world @
           [Config_error (OSError (ascii ''No such file or directory''))]\<rparr>)"
    by blast
  have c2: "tasklist_cfg (cfg_env (ascii ''pslist'' @ [10])) = Inr (ascii ''pslist'' @ [10])"
    by (simp add: cfg_env_def)
  have l2: "ascii ''pslist'' @ [10] \<in> set (readlines (ascii ''pslist'' @ [10]))"
    by (simp add: ascii_def)
  have n2: "45 \<notin> set (ascii ''pslist'' @ [10])"
    by (simp add: ascii_def)
  have m2: "mkdir_raises (cfg_env (ascii ''pslist'' @ [10]))
      (Child (Dirname (arg_memorydump_path example_args)) (ascii ''output'')) = None"
    by (simp add: cfg_env_def)
  from config_failure_aborts [where env="cfg_env (ascii ''pslist'' @ [10])" and a=example_args
      and w=empty_world and cfg="ascii ''pslist'' @ [10]" and l="ascii ''pslist'' @ [10]"
      and e=IndexError]
    c2 l2 n2 m2 p d
  have b: "main (cfg_env (ascii ''pslist'' @ [10])) example_args empty_world =
     (0, empty_world\<lparr>logged := logged empty_world @ [Config_error IndexError]\<rparr>)"
    by blast
  from a b show ?thesis by simp
qed

end
